theory Spec2Isabelle
  imports Main "HOL-Library.Char_ord" "HOL-Library.List_Lexorder" "HOL-Library.Multiset"
    "HOL-Library.Log_Nat"
begin

section \<open>Data model of finance\_manager.py\<close>

text \<open>
  The program keeps three SQLite tables (users, transactions, budgets) and one piece of
  process state, \<open>self.current_user\<close>. A table is the list of its rows in rowid order.
  Every method returns \<open>False\<close>, \<open>[]\<close> or \<open>{}\<close> on failure after printing a message; the
  message is the error value of the model:
  \<^item> "Username and password cannot be empty." is \<open>InvalidInput\<close>,
  \<^item> "Username already exists. ..." is \<open>DuplicateUser\<close>,
  \<^item> "Invalid username or password." is \<open>InvalidCredentials\<close>,
  \<^item> "Please log in first." is \<open>NotAuthenticated\<close>,
  \<^item> "Transaction type must be 'income' or 'expense'." is \<open>InvalidKind\<close>,
  \<^item> "Amount must be positive." and "Budget amount must be positive." are \<open>InvalidAmount\<close>,
  \<^item> "Transaction not found or you don't have permission ..." is \<open>NotFound\<close>,
  \<^item> "No updates provided." is \<open>NoOpUpdate\<close>,
  \<^item> "Invalid period. Use 'monthly' or 'yearly'." is \<open>InvalidPeriod\<close>,
  \<^item> "Backup file does not belong to the current user." is \<open>OwnershipMismatch\<close>,
  \<^item> "Error ...: e" (the \<open>except Exception\<close> handlers) is \<open>StorageFailure\<close>.

  Amounts are Python floats (the REAL columns, \<open>float(input(...))\<close> in the menu); the
  type \<open>pyfloat\<close> below is their arithmetic.
\<close>

subsection \<open>Python floats\<close>

text \<open>
  A Python float is an IEEE 754 binary64 number: a finite value (a rational; the two
  zeros are one value here, as they are for \<open>==\<close>), an infinity, or NaN. The result of an
  addition is the exact sum rounded to the nearest binary64 number, ties to the even
  significand: 53 significant bits, the least exponent of a bit \<open>-1074\<close>, and a result
  of magnitude \<open>2^1024\<close> or more becomes an infinity. A comparison with NaN is false.
  \<open>amount <= 0\<close> compares with the integer \<open>0\<close>, which is the float \<open>0.0\<close>.
\<close>

datatype pyfloat = Finite rat | PosInf | NegInf | NaN

definition pow2 :: "int \<Rightarrow> rat" where
  "pow2 e = (if 0 \<le> e then 2 ^ nat e else 1 / 2 ^ nat (- e))"

text \<open>\<open>floor_log2 q\<close> is the \<open>k\<close> with \<open>2^k \<le> q < 2^(k+1)\<close>, for \<open>q > 0\<close>.\<close>

definition floor_log2 :: "rat \<Rightarrow> int" where
  "floor_log2 q = (if 1 \<le> q then bitlen \<lfloor>q\<rfloor> - 1 else - bitlen (\<lceil>1 / q\<rceil> - 1))"

definition round_half_even :: "rat \<Rightarrow> int" where
  "round_half_even x =
     (let f = \<lfloor>x\<rfloor>; d = x - of_int f
      in if d < 1 / 2 then f else if 1 / 2 < d then f + 1
         else if even f then f else f + 1)"

definition round64 :: "rat \<Rightarrow> pyfloat" where
  "round64 q =
     (if q = 0 then Finite 0
      else
        (let e = max (floor_log2 \<bar>q\<bar> - 52) (- 1074);
             v = of_int (round_half_even (\<bar>q\<bar> / pow2 e)) * pow2 e
         in if 2 ^ 1024 \<le> v then (if 0 < q then PosInf else NegInf)
            else Finite (if 0 < q then v else - v)))"

fun negate :: "pyfloat \<Rightarrow> pyfloat" where
  "negate (Finite a) = Finite (- a)"
| "negate PosInf = NegInf"
| "negate NegInf = PosInf"
| "negate NaN = NaN"

instantiation pyfloat :: "{zero,plus,minus,ord}"
begin

definition zero_pyfloat :: pyfloat where
  "zero_pyfloat = Finite 0"

fun plus_pyfloat :: "pyfloat \<Rightarrow> pyfloat \<Rightarrow> pyfloat" where
  "plus_pyfloat NaN y = NaN"
| "plus_pyfloat x NaN = NaN"
| "plus_pyfloat PosInf NegInf = NaN"
| "plus_pyfloat NegInf PosInf = NaN"
| "plus_pyfloat PosInf y = PosInf"
| "plus_pyfloat x PosInf = PosInf"
| "plus_pyfloat NegInf y = NegInf"
| "plus_pyfloat x NegInf = NegInf"
| "plus_pyfloat (Finite a) (Finite b) = round64 (a + b)"

definition minus_pyfloat :: "pyfloat \<Rightarrow> pyfloat \<Rightarrow> pyfloat" where
  "minus_pyfloat x y = x + negate y"

fun less_eq_pyfloat :: "pyfloat \<Rightarrow> pyfloat \<Rightarrow> bool" where
  "less_eq_pyfloat NaN y = False"
| "less_eq_pyfloat x NaN = False"
| "less_eq_pyfloat NegInf y = True"
| "less_eq_pyfloat x PosInf = True"
| "less_eq_pyfloat PosInf y = False"
| "less_eq_pyfloat x NegInf = False"
| "less_eq_pyfloat (Finite a) (Finite b) = (a \<le> b)"

fun less_pyfloat :: "pyfloat \<Rightarrow> pyfloat \<Rightarrow> bool" where
  "less_pyfloat NaN y = False"
| "less_pyfloat x NaN = False"
| "less_pyfloat PosInf y = False"
| "less_pyfloat x NegInf = False"
| "less_pyfloat NegInf y = True"
| "less_pyfloat x PosInf = True"
| "less_pyfloat (Finite a) (Finite b) = (a < b)"

instance ..

end

subsection \<open>Errors, rows and documents\<close>

datatype error =
    InvalidInput | DuplicateUser | InvalidCredentials | NotAuthenticated
  | InvalidAmount | InvalidKind | NotFound | NoOpUpdate | InvalidPeriod
  | OwnershipMismatch | StorageFailure

record user_row =
  u_id :: int
  u_username :: string
  u_password :: string

record transaction_row =
  t_id :: int
  t_user_id :: int
  t_type :: string
  t_amount :: pyfloat
  t_category :: string
  t_description :: string
  t_date :: string

record budget_row =
  b_id :: int
  b_user_id :: int
  b_category :: string
  b_amount :: pyfloat
  b_month :: nat
  b_year :: nat

text \<open>
  The three \<open>seq_\<close> fields are the rows of \<open>sqlite_sequence\<close>: every primary key is
  declared AUTOINCREMENT, so a new rowid is one more than the largest rowid the table
  has ever held.
\<close>

record database =
  users :: "user_row list"
  transactions :: "transaction_row list"
  budgets :: "budget_row list"
  seq_users :: int
  seq_transactions :: int
  seq_budgets :: int

record manager =
  db :: "database"
  current_user :: "int option"

text \<open>The dictionaries that \<open>get_transactions\<close> and \<open>get_budgets\<close> build from a row.\<close>

record transaction_dict =
  d_id :: int
  d_type :: string
  d_amount :: pyfloat
  d_category :: string
  d_description :: string
  d_date :: string

record budget_dict =
  bd_category :: string
  bd_amount :: pyfloat

text \<open>The JSON document that \<open>backup_data\<close> writes and \<open>restore_data\<close> reads.\<close>

record backup_document =
  doc_user_id :: int
  doc_backup_date :: string
  doc_transactions :: "transaction_dict list"
  doc_budgets :: "budget_dict list"

text \<open>The dictionary that \<open>generate_report\<close> returns; \<open>category_expenses\<close> is a Python
  dict, which keeps its keys in insertion order.\<close>

record report =
  r_period :: string
  r_start_date :: string
  r_end_date :: string
  r_total_income :: pyfloat
  r_total_expenses :: pyfloat
  r_savings :: pyfloat
  r_category_expenses :: "(string \<times> pyfloat) list"

subsection \<open>The clock\<close>

text \<open>
  One value of \<open>datetime\<close> is one reading of \<open>datetime.datetime.now()\<close>; a method takes
  one reading for each call of \<open>now()\<close> it makes. \<open>strftime\<close> pads the year to four digits
  and every other field to two (years are 1000 to 9999).
\<close>

record datetime =
  dt_year :: nat
  dt_month :: nat
  dt_day :: nat
  dt_hour :: nat
  dt_minute :: nat
  dt_second :: nat

definition digit :: "nat \<Rightarrow> char" where
  "digit n = ''0123456789'' ! (n mod 10)"

definition pad2 :: "nat \<Rightarrow> string" where
  "pad2 n = [digit (n div 10), digit n]"

definition pad4 :: "nat \<Rightarrow> string" where
  "pad4 n = [digit (n div 1000), digit (n div 100), digit (n div 10), digit n]"

definition strftime_date :: "datetime \<Rightarrow> string" where
  "strftime_date t = pad4 (dt_year t) @ ''-'' @ pad2 (dt_month t) @ ''-'' @ pad2 (dt_day t)"

definition strftime_datetime :: "datetime \<Rightarrow> string" where
  "strftime_datetime t =
     strftime_date t @ '' '' @ pad2 (dt_hour t) @ '':'' @ pad2 (dt_minute t) @ '':''
       @ pad2 (dt_second t)"

subsection \<open>SQL statements\<close>

text \<open>\<open>setup_database\<close> on a new file: three empty tables.\<close>

definition setup_database :: "manager" where
  "setup_database =
     \<lparr>db = \<lparr>users = [], transactions = [], budgets = [],
             seq_users = 0, seq_transactions = 0, seq_budgets = 0\<rparr>,
      current_user = None\<rparr>"

definition next_rowid :: "int \<Rightarrow> int list \<Rightarrow> int" where
  "next_rowid s ids = foldr max ids s + 1"

text \<open>\<open>if not self.current_user\<close>: \<open>None\<close> and \<open>0\<close> are both falsy.\<close>

definition logged_in :: "manager \<Rightarrow> bool" where
  "logged_in m = (case current_user m of None \<Rightarrow> False | Some u \<Rightarrow> u \<noteq> 0)"

definition user_of :: "manager \<Rightarrow> int" where
  "user_of m = (case current_user m of None \<Rightarrow> 0 | Some u \<Rightarrow> u)"

text \<open>
  \<open>INSERT INTO transactions\<close>: the CHECK constraint on \<open>type\<close> raises
  \<open>sqlite3.IntegrityError\<close> (here \<open>None\<close>) for any other string. SQLite binds a NaN
  as NULL, which the NOT NULL constraint on \<open>amount\<close> refuses in the same way.
\<close>

definition insert_transaction ::
  "int \<Rightarrow> string \<Rightarrow> pyfloat \<Rightarrow> string \<Rightarrow> string \<Rightarrow> string \<Rightarrow> database \<Rightarrow> database option"
where
  "insert_transaction u ty a c d dt s =
     (if (ty = ''income'' \<or> ty = ''expense'') \<and> a \<noteq> NaN then
        (let i = next_rowid (seq_transactions s) (map t_id (transactions s)) in
         Some (s\<lparr>transactions := transactions s @
                   [\<lparr>t_id = i, t_user_id = u, t_type = ty, t_amount = a, t_category = c,
                     t_description = d, t_date = dt\<rparr>],
                 seq_transactions := i\<rparr>))
      else None)"

definition budget_key :: "int \<Rightarrow> string \<Rightarrow> nat \<Rightarrow> nat \<Rightarrow> budget_row \<Rightarrow> bool" where
  "budget_key u c mo y b =
     (b_user_id b = u \<and> b_category b = c \<and> b_month b = mo \<and> b_year b = y)"

text \<open>\<open>INSERT INTO budgets\<close>: UNIQUE(user\_id, category, month, year) raises on a clash.\<close>

definition insert_budget ::
  "int \<Rightarrow> string \<Rightarrow> pyfloat \<Rightarrow> nat \<Rightarrow> nat \<Rightarrow> database \<Rightarrow> database option"
where
  "insert_budget u c a mo y s =
     (if list_ex (budget_key u c mo y) (budgets s) \<or> a = NaN then None
      else
        (let i = next_rowid (seq_budgets s) (map b_id (budgets s)) in
         Some (s\<lparr>budgets := budgets s @
                   [\<lparr>b_id = i, b_user_id = u, b_category = c, b_amount = a,
                     b_month = mo, b_year = y\<rparr>],
                 seq_budgets := i\<rparr>)))"

text \<open>
  \<open>INSERT OR REPLACE INTO budgets\<close>: the clashing row is deleted first. A NULL amount
  still raises: REPLACE falls back to ABORT for a NOT NULL column without a default.
\<close>

definition insert_or_replace_budget ::
  "int \<Rightarrow> string \<Rightarrow> pyfloat \<Rightarrow> nat \<Rightarrow> nat \<Rightarrow> database \<Rightarrow> database option"
where
  "insert_or_replace_budget u c a mo y s =
     (if a = NaN then None
      else
        (let kept = filter (\<lambda>b. \<not> budget_key u c mo y b) (budgets s);
             i = next_rowid (seq_budgets s) (map b_id (budgets s)) in
         Some (s\<lparr>budgets := kept @
                   [\<lparr>b_id = i, b_user_id = u, b_category = c, b_amount = a,
                     b_month = mo, b_year = y\<rparr>],
                 seq_budgets := i\<rparr>)))"

text \<open>
  \<open>ORDER BY date DESC\<close>: a stable sort of the rows, in rowid order, by descending
  date. TEXT values compare bytewise (\<open>memcmp\<close>, then length), which is the
  lexicographic order of \<open>string\<close>.
\<close>

fun insert_desc :: "transaction_row \<Rightarrow> transaction_row list \<Rightarrow> transaction_row list"
where
  "insert_desc t [] = [t]"
| "insert_desc t (y # ys) =
     (if t_date y \<le> t_date t then t # y # ys else y # insert_desc t ys)"

definition order_by_date_desc :: "transaction_row list \<Rightarrow> transaction_row list" where
  "order_by_date_desc ts = foldr insert_desc ts []"

section \<open>The methods of PersonalFinanceManager\<close>

subsection \<open>Accounts\<close>

text \<open>
  \<open>hash_password\<close> is \<open>hashlib.sha256(password.encode()).hexdigest()\<close>; the digest is a
  parameter \<open>H\<close> of the two methods that call it.
\<close>

definition register_user ::
  "(string \<Rightarrow> string) \<Rightarrow> manager \<Rightarrow> string \<Rightarrow> string \<Rightarrow> (error + unit) \<times> manager"
where
  "register_user H m username password =
     (if username = [] \<or> password = [] then (Inl InvalidInput, m)
      else
        (let hashed_password = H password in
         if list_ex (\<lambda>r. u_username r = username) (users (db m))
         then (Inl DuplicateUser, m)
         else
           (let i = next_rowid (seq_users (db m)) (map u_id (users (db m))) in
            (Inr (),
             m\<lparr>db := (db m)\<lparr>users := users (db m) @
                         [\<lparr>u_id = i, u_username = username, u_password = hashed_password\<rparr>],
                       seq_users := i\<rparr>\<rparr>))))"

definition login ::
  "(string \<Rightarrow> string) \<Rightarrow> manager \<Rightarrow> string \<Rightarrow> string \<Rightarrow> (error + unit) \<times> manager"
where
  "login H m username password =
     (let hashed_password = H password in
      case filter (\<lambda>r. u_username r = username \<and> u_password r = hashed_password)
             (users (db m)) of
        [] \<Rightarrow> (Inl InvalidCredentials, m)
      | user # _ \<Rightarrow> (Inr (), m\<lparr>current_user := Some (u_id user)\<rparr>))"

subsection \<open>Queries\<close>

definition to_dict :: "transaction_row \<Rightarrow> transaction_dict" where
  "to_dict t =
     \<lparr>d_id = t_id t, d_type = t_type t, d_amount = t_amount t, d_category = t_category t,
      d_description = t_description t, d_date = t_date t\<rparr>"

text \<open>
  An optional filter is applied when the argument is truthy: \<open>None\<close> and the empty
  string both leave it out.
\<close>

definition selected ::
  "int \<Rightarrow> string option \<Rightarrow> string option \<Rightarrow> string option \<Rightarrow> string option
     \<Rightarrow> transaction_row \<Rightarrow> bool"
where
  "selected u start_date end_date category transaction_type t =
     (t_user_id t = u
      \<and> (case start_date of None \<Rightarrow> True | Some s \<Rightarrow> s = [] \<or> s \<le> t_date t)
      \<and> (case end_date of None \<Rightarrow> True | Some e \<Rightarrow> e = [] \<or> t_date t \<le> e)
      \<and> (case category of None \<Rightarrow> True | Some c \<Rightarrow> c = [] \<or> t_category t = c)
      \<and> (case transaction_type of None \<Rightarrow> True | Some k \<Rightarrow> k = [] \<or> t_type t = k))"

definition get_transactions ::
  "manager \<Rightarrow> string option \<Rightarrow> string option \<Rightarrow> string option \<Rightarrow> string option
     \<Rightarrow> transaction_dict list"
where
  "get_transactions m start_date end_date category transaction_type =
     (if \<not> logged_in m then []
      else map to_dict (order_by_date_desc
             (filter (selected (user_of m) start_date end_date category transaction_type)
                (transactions (db m)))))"

text \<open>
  The SELECT of \<open>get_budgets\<close> has no ORDER BY. SQLite answers it through the index of
  \<open>UNIQUE(user_id, category, month, year)\<close>: the rows of one user, month and year come
  back in the order of their category, compared as TEXT.
\<close>

definition get_budgets :: "datetime \<Rightarrow> manager \<Rightarrow> budget_dict list" where
  "get_budgets now m =
     (if \<not> logged_in m then []
      else map (\<lambda>b. \<lparr>bd_category = b_category b, bd_amount = b_amount b\<rparr>)
             (sort_key b_category
                (filter (\<lambda>b. b_user_id b = user_of m \<and> b_month b = dt_month now
                             \<and> b_year b = dt_year now)
                   (budgets (db m)))))"

subsection \<open>Budgets\<close>

text \<open>The builtin \<open>sum\<close>: the items are added to \<open>0\<close> from left to right.\<close>

definition py_sum :: "pyfloat list \<Rightarrow> pyfloat" where
  "py_sum xs = foldl (+) 0 xs"

text \<open>
  \<open>check_budget\<close> returns a flag and prints a warning with the budget and the amount
  spent; the second component is what the warning shows.
\<close>

definition check_budget ::
  "datetime \<Rightarrow> manager \<Rightarrow> string \<Rightarrow> pyfloat \<Rightarrow> bool \<times> (pyfloat \<times> pyfloat) option"
where
  "check_budget now m category amount =
     (if \<not> logged_in m then (False, None)
      else
        case filter (budget_key (user_of m) category (dt_month now) (dt_year now))
               (budgets (db m)) of
          [] \<Rightarrow> (False, None)
        | budget # _ \<Rightarrow>
            (let budget_amount = b_amount budget;
                 start_date = strftime_date (now\<lparr>dt_day := 1\<rparr>);
                 end_date = strftime_date now;
                 expenses = get_transactions m (Some start_date) (Some end_date)
                              (Some category) (Some ''expense'');
                 total_spent = py_sum (map d_amount expenses)
             in if budget_amount < total_spent
                then (True, Some (budget_amount, total_spent))
                else (False, None)))"

definition set_budget ::
  "datetime \<Rightarrow> manager \<Rightarrow> string \<Rightarrow> pyfloat \<Rightarrow> (error + unit) \<times> manager"
where
  "set_budget now m category amount =
     (if \<not> logged_in m then (Inl NotAuthenticated, m)
      else if amount \<le> 0 then (Inl InvalidAmount, m)
      else
        (case insert_or_replace_budget (user_of m) category amount
                (dt_month now) (dt_year now) (db m) of
           None \<Rightarrow> (Inl StorageFailure, m)
         | Some s \<Rightarrow> (Inr (), m\<lparr>db := s\<rparr>)))"

subsection \<open>Transactions\<close>

text \<open>
  \<open>add_transaction\<close> reads the clock for the row's date, and \<open>check_budget\<close> reads it
  again. On success the result carries what \<open>check_budget\<close> printed.
\<close>

definition add_transaction ::
  "datetime \<Rightarrow> datetime \<Rightarrow> manager \<Rightarrow> string \<Rightarrow> pyfloat \<Rightarrow> string \<Rightarrow> string
     \<Rightarrow> (error + (pyfloat \<times> pyfloat) option) \<times> manager"
where
  "add_transaction now now2 m transaction_type amount category description =
     (if \<not> logged_in m then (Inl NotAuthenticated, m)
      else if transaction_type \<noteq> ''income'' \<and> transaction_type \<noteq> ''expense''
        then (Inl InvalidKind, m)
      else if amount \<le> 0 then (Inl InvalidAmount, m)
      else
        (let date = strftime_datetime now in
         case insert_transaction (user_of m) transaction_type amount category description
                date (db m) of
           None \<Rightarrow> (Inl StorageFailure, m)
         | Some s \<Rightarrow>
             (let m2 = m\<lparr>db := s\<rparr> in
              (Inr (snd (check_budget now2 m2 category amount)), m2))))"

definition matches :: "int \<Rightarrow> int \<Rightarrow> transaction_row \<Rightarrow> bool" where
  "matches transaction_id u t = (t_id t = transaction_id \<and> t_user_id t = u)"

text \<open>
  The SET clause holds exactly the arguments that are not \<open>None\<close>. The UPDATE raises
  when it would store a NaN (NULL) amount in a row; with no row to update it reports
  \<open>rowcount = 0\<close> instead.
\<close>

definition apply_updates ::
  "pyfloat option \<Rightarrow> string option \<Rightarrow> string option \<Rightarrow> transaction_row \<Rightarrow> transaction_row"
where
  "apply_updates amount category description t =
     t\<lparr>t_amount := (case amount of None \<Rightarrow> t_amount t | Some a \<Rightarrow> a),
       t_category := (case category of None \<Rightarrow> t_category t | Some c \<Rightarrow> c),
       t_description := (case description of None \<Rightarrow> t_description t | Some d \<Rightarrow> d)\<rparr>"

definition update_transaction ::
  "manager \<Rightarrow> int \<Rightarrow> pyfloat option \<Rightarrow> string option \<Rightarrow> string option
     \<Rightarrow> (error + unit) \<times> manager"
where
  "update_transaction m transaction_id amount category description =
     (if \<not> logged_in m then (Inl NotAuthenticated, m)
      else if (case amount of None \<Rightarrow> False | Some a \<Rightarrow> a \<le> 0) then (Inl InvalidAmount, m)
      else if amount = None \<and> category = None \<and> description = None
        then (Inl NoOpUpdate, m)
      else if \<not> list_ex (matches transaction_id (user_of m)) (transactions (db m))
        then (Inl NotFound, m)
      else if amount = Some NaN then (Inl StorageFailure, m)
      else (Inr (),
            m\<lparr>db := (db m)\<lparr>transactions :=
                 map (\<lambda>t. if matches transaction_id (user_of m) t
                           then apply_updates amount category description t else t)
                   (transactions (db m))\<rparr>\<rparr>))"

definition delete_transaction :: "manager \<Rightarrow> int \<Rightarrow> (error + unit) \<times> manager" where
  "delete_transaction m transaction_id =
     (if \<not> logged_in m then (Inl NotAuthenticated, m)
      else if \<not> list_ex (matches transaction_id (user_of m)) (transactions (db m))
        then (Inl NotFound, m)
      else (Inr (),
            m\<lparr>db := (db m)\<lparr>transactions :=
                 filter (\<lambda>t. \<not> matches transaction_id (user_of m) t)
                   (transactions (db m))\<rparr>\<rparr>))"

subsection \<open>Reports\<close>

text \<open>\<open>category_expenses[k] = category_expenses.get(k, 0) + v\<close> on an ordered dict.\<close>

fun dict_get :: "(string \<times> pyfloat) list \<Rightarrow> string \<Rightarrow> pyfloat \<Rightarrow> pyfloat" where
  "dict_get [] k dflt = dflt"
| "dict_get ((k', v) # kvs) k dflt = (if k' = k then v else dict_get kvs k dflt)"

fun dict_set :: "(string \<times> pyfloat) list \<Rightarrow> string \<Rightarrow> pyfloat \<Rightarrow> (string \<times> pyfloat) list" where
  "dict_set [] k v = [(k, v)]"
| "dict_set ((k', v') # kvs) k v =
     (if k' = k then (k, v) # kvs else (k', v') # dict_set kvs k v)"

text \<open>The loop of \<open>generate_report\<close>, with its three accumulators.\<close>

fun report_loop ::
  "transaction_dict list \<Rightarrow> pyfloat \<Rightarrow> pyfloat \<Rightarrow> (string \<times> pyfloat) list
     \<Rightarrow> pyfloat \<times> pyfloat \<times> (string \<times> pyfloat) list"
where
  "report_loop [] total_income total_expenses category_expenses =
     (total_income, total_expenses, category_expenses)"
| "report_loop (tr # rest) total_income total_expenses category_expenses =
     (if d_type tr = ''income''
      then report_loop rest (total_income + d_amount tr) total_expenses category_expenses
      else report_loop rest total_income (total_expenses + d_amount tr)
             (dict_set category_expenses (d_category tr)
                (dict_get category_expenses (d_category tr) 0 + d_amount tr)))"

definition generate_report ::
  "datetime \<Rightarrow> manager \<Rightarrow> string \<Rightarrow> error + report"
where
  "generate_report now m period =
     (if \<not> logged_in m then Inl NotAuthenticated
      else if period \<noteq> ''monthly'' \<and> period \<noteq> ''yearly'' then Inl InvalidPeriod
      else
        (let start_date = (if period = ''monthly''
                           then strftime_date (now\<lparr>dt_day := 1\<rparr>)
                           else strftime_date (now\<lparr>dt_month := 1, dt_day := 1\<rparr>));
             end_date = strftime_date now;
             txs = get_transactions m (Some start_date) (Some end_date) None None
         in case report_loop txs 0 0 [] of
              (total_income, total_expenses, category_expenses) \<Rightarrow>
                Inr \<lparr>r_period = period, r_start_date = start_date, r_end_date = end_date,
                     r_total_income = total_income, r_total_expenses = total_expenses,
                     r_savings = total_income - total_expenses,
                     r_category_expenses = category_expenses\<rparr>))"

subsection \<open>Backup and restore\<close>

text \<open>
  \<open>backup_data\<close> reads the clock in \<open>get_budgets\<close> and again for \<open>backup_date\<close>. The
  document is the value handed to \<open>json.dump\<close>; \<open>restore_data\<close> takes the value
  \<open>json.load\<close> returns.
\<close>

definition backup_data ::
  "datetime \<Rightarrow> datetime \<Rightarrow> manager \<Rightarrow> error + backup_document"
where
  "backup_data now now2 m =
     (if \<not> logged_in m then Inl NotAuthenticated
      else Inr \<lparr>doc_user_id = user_of m,
                doc_backup_date = strftime_datetime now2,
                doc_transactions = get_transactions m None None None None,
                doc_budgets = get_budgets now m\<rparr>)"

fun restore_transactions ::
  "int \<Rightarrow> transaction_dict list \<Rightarrow> database \<Rightarrow> database option"
where
  "restore_transactions u [] s = Some s"
| "restore_transactions u (tr # rest) s =
     (case insert_transaction u (d_type tr) (d_amount tr) (d_category tr)
             (d_description tr) (d_date tr) s of
        None \<Rightarrow> None
      | Some s2 \<Rightarrow> restore_transactions u rest s2)"

fun restore_budgets ::
  "int \<Rightarrow> nat \<Rightarrow> nat \<Rightarrow> budget_dict list \<Rightarrow> database \<Rightarrow> database option"
where
  "restore_budgets u mo y [] s = Some s"
| "restore_budgets u mo y (budget # rest) s =
     (case insert_budget u (bd_category budget) (bd_amount budget) mo y s of
        None \<Rightarrow> None
      | Some s2 \<Rightarrow> restore_budgets u mo y rest s2)"

text \<open>
  An exception inside \<open>restore_data\<close> leaves the function before \<open>conn.commit()\<close>, so
  the two DELETEs and the rows inserted so far are never committed: the stored rows
  are those of before the call. Unlike its sibling methods, \<open>restore_data\<close> has no
  \<open>finally: conn.close()\<close>; on the \<open>except\<close> path the connection stays open until
  Python collects it, and while it lives other connections cannot write. The state
  of the model is the stored rows and the current user; it carries no connections.
\<close>

definition restore_data ::
  "datetime \<Rightarrow> manager \<Rightarrow> backup_document \<Rightarrow> (error + unit) \<times> manager"
where
  "restore_data now m backup =
     (if \<not> logged_in m then (Inl NotAuthenticated, m)
      else if doc_user_id backup \<noteq> user_of m then (Inl OwnershipMismatch, m)
      else
        (let cleared = (db m)\<lparr>
               transactions := filter (\<lambda>t. t_user_id t \<noteq> user_of m) (transactions (db m)),
               budgets := filter (\<lambda>b. b_user_id b \<noteq> user_of m) (budgets (db m))\<rparr>
         in case restore_transactions (user_of m) (doc_transactions backup) cleared of
              None \<Rightarrow> (Inl StorageFailure, m)
            | Some s2 \<Rightarrow>
                (case restore_budgets (user_of m) (dt_month now) (dt_year now)
                        (doc_budgets backup) s2 of
                   None \<Rightarrow> (Inl StorageFailure, m)
                 | Some s3 \<Rightarrow> (Inr (), m\<lparr>db := s3\<rparr>))))"

section \<open>One step of a session\<close>

text \<open>
  The menu of \<open>main\<close> calls one method per choice. An \<open>operation\<close> is such a call with
  its arguments (and clock readings), \<open>perform\<close> runs it, and the \<open>outcome\<close> is what the
  caller gets back.
\<close>

datatype operation =
    Register string string
  | Login string string
  | AddTransaction datetime datetime string pyfloat string string
  | UpdateTransaction int "pyfloat option" "string option" "string option"
  | DeleteTransaction int
  | GetTransactions "string option" "string option" "string option" "string option"
  | GenerateReport datetime string
  | SetBudget datetime string pyfloat
  | CheckBudget datetime string pyfloat
  | GetBudgets datetime
  | BackupData datetime datetime
  | RestoreData datetime backup_document

datatype outcome =
    Status "error + unit"
  | Added "error + (pyfloat \<times> pyfloat) option"
  | Rows "transaction_dict list"
  | Summary "error + report"
  | Exceeded "bool \<times> (pyfloat \<times> pyfloat) option"
  | BudgetRows "budget_dict list"
  | Document "error + backup_document"

fun perform :: "(string \<Rightarrow> string) \<Rightarrow> manager \<Rightarrow> operation \<Rightarrow> outcome \<times> manager" where
  "perform H m (Register username password) =
     (case register_user H m username password of (r, m2) \<Rightarrow> (Status r, m2))"
| "perform H m (Login username password) =
     (case login H m username password of (r, m2) \<Rightarrow> (Status r, m2))"
| "perform H m (AddTransaction now now2 ty amount category description) =
     (case add_transaction now now2 m ty amount category description of
        (r, m2) \<Rightarrow> (Added r, m2))"
| "perform H m (UpdateTransaction tid amount category description) =
     (case update_transaction m tid amount category description of (r, m2) \<Rightarrow> (Status r, m2))"
| "perform H m (DeleteTransaction tid) =
     (case delete_transaction m tid of (r, m2) \<Rightarrow> (Status r, m2))"
| "perform H m (GetTransactions s e c k) = (Rows (get_transactions m s e c k), m)"
| "perform H m (GenerateReport now period) = (Summary (generate_report now m period), m)"
| "perform H m (SetBudget now category amount) =
     (case set_budget now m category amount of (r, m2) \<Rightarrow> (Status r, m2))"
| "perform H m (CheckBudget now category amount) =
     (Exceeded (check_budget now m category amount), m)"
| "perform H m (GetBudgets now) = (BudgetRows (get_budgets now m), m)"
| "perform H m (BackupData now now2) = (Document (backup_data now now2 m), m)"
| "perform H m (RestoreData now backup) =
     (case restore_data now m backup of (r, m2) \<Rightarrow> (Status r, m2))"

text \<open>The transactions and budgets that a user owns.\<close>

definition rows_of :: "int \<Rightarrow> manager \<Rightarrow> transaction_row list \<times> budget_row list" where
  "rows_of u m =
     (filter (\<lambda>t. t_user_id t = u) (transactions (db m)),
      filter (\<lambda>b. b_user_id b = u) (budgets (db m)))"

(* frame lemmas *)

text \<open>The fields of a transaction that a backup carries over (all but the ids).\<close>

definition row_fields :: "transaction_row \<Rightarrow> string \<times> pyfloat \<times> string \<times> string \<times> string" where
  "row_fields t = (t_type t, t_amount t, t_category t, t_description t, t_date t)"

definition dict_fields :: "transaction_dict \<Rightarrow> string \<times> pyfloat \<times> string \<times> string \<times> string" where
  "dict_fields d = (d_type d, d_amount d, d_category d, d_description d, d_date d)"

definition budget_fields :: "budget_row \<Rightarrow> int \<times> string \<times> pyfloat \<times> nat \<times> nat" where
  "budget_fields b = (b_user_id b, b_category b, b_amount b, b_month b, b_year b)"

text \<open>
  The constraints of the two tables, read on a backup document: CHECK on \<open>type\<close>,
  NOT NULL on the amounts, and UNIQUE on a budget's key, which for the rows of one
  restore (one user, one month) is the category.
\<close>

definition transaction_ok :: "transaction_dict \<Rightarrow> bool" where
  "transaction_ok d = ((d_type d = ''income'' \<or> d_type d = ''expense'') \<and> d_amount d \<noteq> NaN)"

definition satisfies_constraints :: "backup_document \<Rightarrow> bool" where
  "satisfies_constraints backup =
     (list_all transaction_ok (doc_transactions backup)
      \<and> list_all (\<lambda>b. bd_amount b \<noteq> NaN) (doc_budgets backup)
      \<and> distinct (map bd_category (doc_budgets backup)))"

text \<open>
  The constraints of the schema, read on a database: CHECK on \<open>type\<close>, NOT NULL on the
  amounts, UNIQUE(user\_id, category, month, year) on budgets, the primary key of
  transactions, and UNIQUE on usernames.
\<close>

definition constraints_hold :: "database \<Rightarrow> bool" where
  "constraints_hold s =
     (list_all (\<lambda>t. (t_type t = ''income'' \<or> t_type t = ''expense'') \<and> t_amount t \<noteq> NaN)
        (transactions s)
      \<and> list_all (\<lambda>b. b_amount b \<noteq> NaN) (budgets s)
      \<and> distinct (map (\<lambda>b. (b_user_id b, b_category b, b_month b, b_year b)) (budgets s))
      \<and> distinct (map t_id (transactions s))
      \<and> distinct (map u_username (users s)))"

section \<open>Sample states\<close>

text \<open>
  The states and clock readings that the examples below are evaluated on. The digest of
  the examples reverses the password.
\<close>

definition nov :: "nat \<Rightarrow> datetime" where
  "nov d = \<lparr>dt_year = 2026, dt_month = 11, dt_day = d, dt_hour = 10, dt_minute = 0, dt_second = 0\<rparr>"

definition alice_db :: "manager" where
  "alice_db = snd (register_user rev setup_database ''alice'' ''secret'')"

definition alice_session :: manager where
  "alice_session = snd (login rev alice_db ''alice'' ''secret'')"

definition two_users :: manager where
  "two_users =
     \<lparr>db = \<lparr>users = [\<lparr>u_id = 1, u_username = ''alice'', u_password = ''terces''\<rparr>,
                      \<lparr>u_id = 2, u_username = ''bob'', u_password = ''2retnuh''\<rparr>],
             transactions =
               [\<lparr>t_id = 1, t_user_id = 1, t_type = ''expense'', t_amount = Finite 60,
                 t_category = ''food'', t_description = ''groceries'',
                 t_date = ''2026-11-02 10:00:00''\<rparr>,
                \<lparr>t_id = 2, t_user_id = 2, t_type = ''expense'', t_amount = Finite 25,
                 t_category = ''fun'', t_description = ''cinema'',
                 t_date = ''2026-11-03 10:00:00''\<rparr>],
             budgets = [\<lparr>b_id = 1, b_user_id = 2, b_category = ''fun'', b_amount = Finite 40,
                         b_month = 11, b_year = 2026\<rparr>],
             seq_users = 2, seq_transactions = 2, seq_budgets = 1\<rparr>,
      current_user = Some 1\<rparr>"

definition oct31 :: datetime where
  "oct31 = \<lparr>dt_year = 2026, dt_month = 10, dt_day = 31, dt_hour = 18, dt_minute = 0, dt_second = 0\<rparr>"

definition alice_october :: manager where
  "alice_october =
     \<lparr>db = \<lparr>users = [\<lparr>u_id = 1, u_username = ''alice'', u_password = ''terces''\<rparr>],
             transactions =
               [\<lparr>t_id = 1, t_user_id = 1, t_type = ''income'', t_amount = Finite 1500,
                 t_category = ''salary'', t_description = ''october'',
                 t_date = ''2026-10-30 09:00:00''\<rparr>],
             budgets = [\<lparr>b_id = 1, b_user_id = 1, b_category = ''food'', b_amount = Finite 100,
                         b_month = 10, b_year = 2026\<rparr>],
             seq_users = 1, seq_transactions = 1, seq_budgets = 1\<rparr>,
      current_user = Some 1\<rparr>"

definition alice_backup :: backup_document where
  "alice_backup =
     \<lparr>doc_user_id = 1, doc_backup_date = ''2026-10-31 18:00:00'',
      doc_transactions =
        [\<lparr>d_id = 7, d_type = ''income'', d_amount = Finite 1500, d_category = ''salary'',
          d_description = ''october'', d_date = ''2026-10-30 09:00:00''\<rparr>],
      doc_budgets = [\<lparr>bd_category = ''food'', bd_amount = Finite 100\<rparr>]\<rparr>"

definition clashing_backup :: backup_document where
  "clashing_backup =
     \<lparr>doc_user_id = 1, doc_backup_date = ''2026-10-31 18:00:00'',
      doc_transactions = [],
      doc_budgets = [\<lparr>bd_category = ''food'', bd_amount = Finite 100\<rparr>,
                     \<lparr>bd_category = ''food'', bd_amount = Finite 200\<rparr>]\<rparr>"

definition alice_ledger :: manager where
  "alice_ledger =
     \<lparr>db = \<lparr>users = [\<lparr>u_id = 1, u_username = ''alice'', u_password = ''terces''\<rparr>,
                      \<lparr>u_id = 2, u_username = ''bob'', u_password = ''2retnuh''\<rparr>],
             transactions =
               [\<lparr>t_id = 1, t_user_id = 1, t_type = ''income'', t_amount = Finite 1500,
                 t_category = ''salary'', t_description = ''october'',
                 t_date = ''2026-10-30 09:00:00''\<rparr>,
                \<lparr>t_id = 2, t_user_id = 1, t_type = ''expense'', t_amount = Finite 60,
                 t_category = ''food'', t_description = ''groceries'',
                 t_date = ''2026-11-02 10:00:00''\<rparr>,
                \<lparr>t_id = 3, t_user_id = 2, t_type = ''expense'', t_amount = Finite 25,
                 t_category = ''fun'', t_description = ''cinema'',
                 t_date = ''2026-11-03 10:00:00''\<rparr>,
                \<lparr>t_id = 4, t_user_id = 1, t_type = ''expense'', t_amount = Finite 50,
                 t_category = ''food'', t_description = ''lunch'',
                 t_date = ''2026-11-04 10:00:00''\<rparr>],
             budgets = [],
             seq_users = 2, seq_transactions = 4, seq_budgets = 0\<rparr>,
      current_user = Some 1\<rparr>"

text \<open>
  \<open>alice_november\<close> is \<open>alice_ledger\<close> before alice's lunch of 4 November is added.
\<close>

definition alice_november :: manager where
  "alice_november =
     \<lparr>db = \<lparr>users = [\<lparr>u_id = 1, u_username = ''alice'', u_password = ''terces''\<rparr>,
                      \<lparr>u_id = 2, u_username = ''bob'', u_password = ''2retnuh''\<rparr>],
             transactions =
               [\<lparr>t_id = 1, t_user_id = 1, t_type = ''income'', t_amount = Finite 1500,
                 t_category = ''salary'', t_description = ''october'',
                 t_date = ''2026-10-30 09:00:00''\<rparr>,
                \<lparr>t_id = 2, t_user_id = 1, t_type = ''expense'', t_amount = Finite 60,
                 t_category = ''food'', t_description = ''groceries'',
                 t_date = ''2026-11-02 10:00:00''\<rparr>,
                \<lparr>t_id = 3, t_user_id = 2, t_type = ''expense'', t_amount = Finite 25,
                 t_category = ''fun'', t_description = ''cinema'',
                 t_date = ''2026-11-03 10:00:00''\<rparr>],
             budgets = [],
             seq_users = 2, seq_transactions = 3, seq_budgets = 0\<rparr>,
      current_user = Some 1\<rparr>"


text \<open>
  The budget example: alice sets a budget of 100 for food and spends 60 on the same
  day, then 50 on a day of her choice.
\<close>

definition food_budget :: "datetime \<Rightarrow> manager" where
  "food_budget day = snd (set_budget day alice_session ''food'' (Finite 100))"

definition food_sixty :: "datetime \<Rightarrow> manager" where
  "food_sixty day =
     snd (add_transaction day day (food_budget day) ''expense'' (Finite 60) ''food'' ''groceries'')"

definition food_fifty :: "datetime \<Rightarrow> datetime \<Rightarrow> manager" where
  "food_fifty day1 day2 =
     snd (add_transaction day2 day2 (food_sixty day1) ''expense'' (Finite 50) ''food'' ''lunch'')"

section \<open>Basic facts\<close>

lemma logged_in_user_of: "logged_in m \<Longrightarrow> current_user m = Some (user_of m) \<and> user_of m \<noteq> 0"
  by (auto simp: logged_in_def user_of_def split: option.splits)

lemma pos_not_le_zero: "(0::pyfloat) < a \<Longrightarrow> \<not> a \<le> 0"
  by (cases a) (auto simp: zero_pyfloat_def)

lemma pos_not_NaN: "(0::pyfloat) < a \<Longrightarrow> a \<noteq> NaN"
  by (cases a) (auto simp: zero_pyfloat_def)


lemma mset_insert_desc: "mset (insert_desc t xs) = add_mset t (mset xs)"
  by (induction xs) auto

lemma mset_order_by_date_desc: "mset (order_by_date_desc xs) = mset xs"
  by (induction xs) (auto simp: order_by_date_desc_def mset_insert_desc)

lemma length_order_by_date_desc: "length (order_by_date_desc xs) = length xs"
  using mset_order_by_date_desc [of xs] by (metis size_mset)

lemma set_order_by_date_desc: "set (order_by_date_desc xs) = set xs"
  using mset_order_by_date_desc [of xs] by (metis set_mset_mset)

lemma sorted_insert_desc:
  "sorted_wrt (\<lambda>a b. t_date b \<le> t_date a) xs \<Longrightarrow>
   sorted_wrt (\<lambda>a b. t_date b \<le> t_date a) (insert_desc t xs)"
proof (induction xs)
  case Nil
  then show ?case by simp
next
  case (Cons y ys)
  have "set (insert_desc t ys) = insert t (set ys)"
    using mset_insert_desc [of t ys] by (metis set_mset_mset set_mset_add_mset_insert)
  with Cons show ?case by (auto intro: order_trans)
qed

lemma sorted_order_by_date_desc:
  "sorted_wrt (\<lambda>a b. t_date b \<le> t_date a) (order_by_date_desc xs)"
  by (induction xs) (auto simp: order_by_date_desc_def sorted_insert_desc)

lemma mset_get_transactions:
  "logged_in m \<Longrightarrow>
   mset (get_transactions m s e c k) =
     image_mset to_dict (filter_mset (selected (user_of m) s e c k) (mset (transactions (db m))))"
  by (simp add: get_transactions_def mset_order_by_date_desc)

lemma alice_session_eq:
  "alice_session =
     \<lparr>db = \<lparr>users = [\<lparr>u_id = 1, u_username = ''alice'', u_password = ''terces''\<rparr>],
             transactions = [], budgets = [],
             seq_users = 1, seq_transactions = 0, seq_budgets = 0\<rparr>,
      current_user = Some 1\<rparr>"
  by (simp add: alice_session_def alice_db_def login_def register_user_def setup_database_def
      next_rowid_def)

lemma float_order_simps [simp]:
  "(Finite a \<le> 0) = (a \<le> 0)" "(0 < Finite a) = (0 < a)" "(0::pyfloat) \<noteq> NaN"
  "(Finite a \<le> Finite b) = (a \<le> b)" "(Finite a < Finite b) = (a < b)"
  by (simp_all add: zero_pyfloat_def)

lemma two_users_logged_in: "logged_in two_users \<and> user_of two_users = 1"
  by (simp add: two_users_def logged_in_def user_of_def)

section \<open>Authentication\<close>

text \<open>
  Claim C9. \<open>login\<close> succeeds exactly when some stored user row has the given username
  and a stored digest equal to the digest of the given password; it then makes the id
  of such a row the current user. In every other case the outcome is the same
  \<open>InvalidCredentials\<close> failure with the manager unchanged, whether the username is
  unknown or the password is wrong.
\<close>

theorem login_authenticates:
  "((fst (login H m username password) = Inr ()) =
      (\<exists>r \<in> set (users (db m)). u_username r = username \<and> u_password r = H password))
   \<and> (fst (login H m username password) = Inr () \<longrightarrow>
        (\<exists>r \<in> set (users (db m)). u_username r = username \<and> u_password r = H password
           \<and> snd (login H m username password) = m\<lparr>current_user := Some (u_id r)\<rparr>))
   \<and> (fst (login H m username password) \<noteq> Inr () \<longrightarrow>
        login H m username password = (Inl InvalidCredentials, m))"
proof -
  let ?hit = "\<lambda>r. u_username r = username \<and> u_password r = H password"
  let ?rows = "filter ?hit (users (db m))"
  show ?thesis
  proof (cases ?rows)
    case Nil
    then have "\<not> (\<exists>r \<in> set (users (db m)). ?hit r)"
      by (simp add: filter_empty_conv)
    with Nil show ?thesis by (simp add: login_def)
  next
    case (Cons r rs)
    then have "r \<in> set ?rows" by simp
    then have r: "r \<in> set (users (db m)) \<and> ?hit r" by simp
    from Cons have res: "login H m username password = (Inr (), m\<lparr>current_user := Some (u_id r)\<rparr>)"
      by (simp add: login_def)
    from r res show ?thesis by auto
  qed
qed

text \<open>
  The witness registers alice (the digest is a stand-in that reverses the password) and
  logs in three times: with the right password, with a wrong one, and as an unknown
  user. The last two outcomes are the same value.
\<close>

theorem login_authenticates_witness:
  "fst (login rev alice_db ''alice'' ''secret'') = Inr ()
   \<and> current_user (snd (login rev alice_db ''alice'' ''secret'')) = Some 1
   \<and> login rev alice_db ''alice'' ''wrong'' = (Inl InvalidCredentials, alice_db)
   \<and> login rev alice_db ''bob'' ''secret'' = (Inl InvalidCredentials, alice_db)"
proof -
  have users: "users (db alice_db) = [\<lparr>u_id = 1, u_username = ''alice'', u_password = ''terces''\<rparr>]"
    by (simp add: alice_db_def register_user_def setup_database_def next_rowid_def)
  have ok: "fst (login rev alice_db ''alice'' ''secret'') = Inr ()"
    using login_authenticates [of rev alice_db "''alice''" "''secret''"] users by simp
  have cu: "current_user (snd (login rev alice_db ''alice'' ''secret'')) = Some 1"
    using login_authenticates [of rev alice_db "''alice''" "''secret''"] ok users by auto
  have bad1: "fst (login rev alice_db ''alice'' ''wrong'') \<noteq> Inr ()"
    using login_authenticates [of rev alice_db "''alice''" "''wrong''"] users by simp
  have bad2: "fst (login rev alice_db ''bob'' ''secret'') \<noteq> Inr ()"
    using login_authenticates [of rev alice_db "''bob''" "''secret''"] users by simp
  show ?thesis
    using ok cu bad1 bad2
      login_authenticates [of rev alice_db "''alice''" "''wrong''"]
      login_authenticates [of rev alice_db "''bob''" "''secret''"]
    by simp
qed

section \<open>The budget check\<close>

text \<open>
  Claim C10. The result of \<open>check_budget\<close>, the flag and the warning alike, does not
  depend on its \<open>amount\<close> argument: the total spent is computed from the stored rows.
\<close>

theorem check_budget_ignores_amount:
  "check_budget now m category a = check_budget now m category b"
  by (simp add: check_budget_def)

section \<open>Adding a transaction\<close>

lemma insert_transaction_ok:
  "(ty = ''income'' \<or> ty = ''expense'') \<Longrightarrow> a \<noteq> NaN \<Longrightarrow>
   insert_transaction u ty a c d dt s =
     Some (s\<lparr>transactions := transactions s @
               [\<lparr>t_id = next_rowid (seq_transactions s) (map t_id (transactions s)),
                 t_user_id = u, t_type = ty, t_amount = a, t_category = c,
                 t_description = d, t_date = dt\<rparr>],
             seq_transactions := next_rowid (seq_transactions s) (map t_id (transactions s))\<rparr>)"
  by (simp add: insert_transaction_def Let_def)

lemma selected_all [simp]: "selected u None None None None t = (t_user_id t = u)"
  by (simp add: selected_def)

text \<open>
  Claim C7. For a logged-in user, \<open>add_transaction\<close> fails with \<open>InvalidKind\<close> when the
  kind is neither \<open>income\<close> nor \<open>expense\<close>, and with \<open>InvalidAmount\<close> when the kind is
  valid and the amount is \<open>\<le> 0\<close>; both leave the state as it was. For a valid kind and
  an amount \<open>> 0\<close> it succeeds whatever \<open>check_budget\<close> reports (its warning is only
  returned), and the unfiltered query then holds one record more: the old records and
  one with exactly the given kind, amount, category and description, dated by the clock.
\<close>

theorem add_transaction_spec:
  assumes "logged_in m"
  shows
   "(kind \<noteq> ''income'' \<and> kind \<noteq> ''expense'' \<longrightarrow>
       add_transaction now now2 m kind amount category description = (Inl InvalidKind, m))
    \<and> ((kind = ''income'' \<or> kind = ''expense'') \<and> amount \<le> 0 \<longrightarrow>
       add_transaction now now2 m kind amount category description = (Inl InvalidAmount, m))
    \<and> ((kind = ''income'' \<or> kind = ''expense'') \<and> 0 < amount \<longrightarrow>
       (\<exists>i m'. add_transaction now now2 m kind amount category description =
                  (Inr (snd (check_budget now2 m' category amount)), m')
          \<and> mset (get_transactions m' None None None None) =
              add_mset \<lparr>d_id = i, d_type = kind, d_amount = amount, d_category = category,
                         d_description = description, d_date = strftime_datetime now\<rparr>
                (mset (get_transactions m None None None None))
          \<and> length (get_transactions m' None None None None) =
              Suc (length (get_transactions m None None None None))))"
proof (intro conjI impI)
  assume "kind \<noteq> ''income'' \<and> kind \<noteq> ''expense''"
  with assms show "add_transaction now now2 m kind amount category description = (Inl InvalidKind, m)"
    by (simp add: add_transaction_def)
next
  assume "(kind = ''income'' \<or> kind = ''expense'') \<and> amount \<le> 0"
  with assms show "add_transaction now now2 m kind amount category description = (Inl InvalidAmount, m)"
    by (auto simp: add_transaction_def)
next
  assume a: "(kind = ''income'' \<or> kind = ''expense'') \<and> 0 < amount"
  then have k: "kind = ''income'' \<or> kind = ''expense''" and pos: "\<not> amount \<le> 0" and nn: "amount \<noteq> NaN"
    by (auto dest: pos_not_le_zero pos_not_NaN)
  let ?row = "\<lambda>i. \<lparr>t_id = i, t_user_id = user_of m, t_type = kind, t_amount = amount,
                  t_category = category, t_description = description,
                  t_date = strftime_datetime now\<rparr>"
  define i where "i = next_rowid (seq_transactions (db m)) (map t_id (transactions (db m)))"
  from insert_transaction_ok [OF k nn]
  have ins: "insert_transaction (user_of m) kind amount category description
                     (strftime_datetime now) (db m) =
     Some ((db m)\<lparr>transactions := transactions (db m) @ [?row i], seq_transactions := i\<rparr>)"
    by (simp add: i_def)
  let ?m' = "m\<lparr>db := (db m)\<lparr>transactions := transactions (db m) @ [?row i],
                              seq_transactions := i\<rparr>\<rparr>"
  have li: "logged_in ?m'" and uo: "user_of ?m' = user_of m"
    using assms by (simp_all add: logged_in_def user_of_def)
  have res: "add_transaction now now2 m kind amount category description =
               (Inr (snd (check_budget now2 ?m' category amount)), ?m')"
    using assms k pos ins by (auto simp: add_transaction_def Let_def)
  have ms: "mset (get_transactions ?m' None None None None) =
              add_mset (to_dict (?row i)) (mset (get_transactions m None None None None))"
    using assms li uo by (simp add: mset_get_transactions)
  have len: "length (get_transactions ?m' None None None None) =
               Suc (length (get_transactions m None None None None))"
    using ms by (metis size_mset size_add_mset)
  from res ms len
  show "\<exists>i m'. add_transaction now now2 m kind amount category description =
                  (Inr (snd (check_budget now2 m' category amount)), m')
          \<and> mset (get_transactions m' None None None None) =
              add_mset \<lparr>d_id = i, d_type = kind, d_amount = amount, d_category = category,
                         d_description = description, d_date = strftime_datetime now\<rparr>
                (mset (get_transactions m None None None None))
          \<and> length (get_transactions m' None None None None) =
              Suc (length (get_transactions m None None None None))"
    by (intro exI [of _ i] exI [of _ ?m']) (simp add: to_dict_def)
qed

text \<open>Three calls in alice's session: a bad kind, a zero amount, and a valid expense.\<close>

theorem add_transaction_spec_witness:
  "logged_in alice_session
   \<and> add_transaction (nov 4) (nov 4) alice_session ''transfer'' (Finite 60) ''food'' ''lunch''
       = (Inl InvalidKind, alice_session)
   \<and> add_transaction (nov 4) (nov 4) alice_session ''expense'' (Finite 0) ''food'' ''lunch''
       = (Inl InvalidAmount, alice_session)
   \<and> (\<exists>i m'. add_transaction (nov 4) (nov 4) alice_session ''expense'' (Finite 60) ''food'' ''lunch''
                = (Inr (snd (check_budget (nov 4) m' ''food'' (Finite 60))), m')
        \<and> mset (get_transactions m' None None None None) =
            add_mset \<lparr>d_id = i, d_type = ''expense'', d_amount = Finite 60, d_category = ''food'',
                       d_description = ''lunch'', d_date = strftime_datetime (nov 4)\<rparr>
              (mset (get_transactions alice_session None None None None))
        \<and> length (get_transactions m' None None None None) =
            Suc (length (get_transactions alice_session None None None None)))"
proof -
  have li: "logged_in alice_session"
    by (simp add: alice_session_eq logged_in_def)
  have z: "Finite 0 \<le> (0::pyfloat)" and p: "(0::pyfloat) < Finite 60"
    by (simp_all add: zero_pyfloat_def)
  show ?thesis
    using li z p
      add_transaction_spec [OF li, of "''transfer''" "nov 4" "nov 4" "Finite 60" "''food''" "''lunch''"]
      add_transaction_spec [OF li, of "''expense''" "nov 4" "nov 4" "Finite 0" "''food''" "''lunch''"]
      add_transaction_spec [OF li, of "''expense''" "nov 4" "nov 4" "Finite 60" "''food''" "''lunch''"]
    by simp
qed

section \<open>Updating a transaction\<close>

lemma list_ex_matches:
  "list_ex (matches tid u) ts = (\<exists>t \<in> set ts. t_id t = tid \<and> t_user_id t = u)"
  by (simp add: list_ex_iff matches_def)

lemma update_transaction_fail_unchanged:
  "update_transaction m tid amount category description = (r, m') \<Longrightarrow> r \<noteq> Inr () \<Longrightarrow> m' = m"
  by (auto simp: update_transaction_def split: if_splits)




section \<open>Rows of other users are left alone\<close>

lemma insert_transaction_frame:
  "insert_transaction u ty a c d dt s = Some s2 \<Longrightarrow> v \<noteq> u \<Longrightarrow>
   filter (\<lambda>t. t_user_id t = v) (transactions s2) = filter (\<lambda>t. t_user_id t = v) (transactions s)
   \<and> budgets s2 = budgets s \<and> users s2 = users s"
  by (auto simp: insert_transaction_def Let_def split: if_splits)

lemma insert_budget_frame:
  "insert_budget u c a mo y s = Some s2 \<Longrightarrow> v \<noteq> u \<Longrightarrow>
   filter (\<lambda>b. b_user_id b = v) (budgets s2) = filter (\<lambda>b. b_user_id b = v) (budgets s)
   \<and> transactions s2 = transactions s \<and> users s2 = users s"
  by (auto simp: insert_budget_def Let_def split: if_splits)

lemma restore_transactions_frame:
  "restore_transactions u ds s = Some s2 \<Longrightarrow> v \<noteq> u \<Longrightarrow>
   filter (\<lambda>t. t_user_id t = v) (transactions s2) = filter (\<lambda>t. t_user_id t = v) (transactions s)
   \<and> budgets s2 = budgets s \<and> users s2 = users s"
proof (induction ds arbitrary: s)
  case Nil
  then show ?case by simp
next
  case (Cons d ds)
  then obtain s1 where 1: "insert_transaction u (d_type d) (d_amount d) (d_category d)
             (d_description d) (d_date d) s = Some s1" and 2: "restore_transactions u ds s1 = Some s2"
    by (auto split: option.splits)
  from insert_transaction_frame [OF 1 Cons.prems(2)] Cons.IH [OF 2 Cons.prems(2)]
  show ?case by simp
qed

lemma restore_budgets_frame:
  "restore_budgets u mo y bs s = Some s2 \<Longrightarrow> v \<noteq> u \<Longrightarrow>
   filter (\<lambda>b. b_user_id b = v) (budgets s2) = filter (\<lambda>b. b_user_id b = v) (budgets s)
   \<and> transactions s2 = transactions s \<and> users s2 = users s"
proof (induction bs arbitrary: s)
  case Nil
  then show ?case by simp
next
  case (Cons b bs)
  then obtain s1 where 1: "insert_budget u (bd_category b) (bd_amount b) mo y s = Some s1"
    and 2: "restore_budgets u mo y bs s1 = Some s2"
    by (auto split: option.splits)
  from insert_budget_frame [OF 1 Cons.prems(2)] Cons.IH [OF 2 Cons.prems(2)]
  show ?case by simp
qed

lemma filter_other_user:
  "v \<noteq> u \<Longrightarrow> filter (\<lambda>t. t_user_id t \<noteq> u \<and> t_user_id t = v) ts
     = filter (\<lambda>t. t_user_id t = v) ts"
  by (induction ts) auto

lemma filter_other_user_b:
  "v \<noteq> u \<Longrightarrow> filter (\<lambda>b. b_user_id b \<noteq> u \<and> b_user_id b = v) bs
     = filter (\<lambda>b. b_user_id b = v) bs"
  by (induction bs) auto

lemma restore_data_frame:
  assumes "v \<noteq> user_of m"
  shows "rows_of v (snd (restore_data now m backup)) = rows_of v m"
proof (cases "fst (restore_data now m backup) = Inr ()")
  case False
  then have "snd (restore_data now m backup) = m"
    by (auto simp: restore_data_def Let_def split: if_splits option.splits)
  then show ?thesis by simp
next
  case True
  let ?cleared = "(db m)\<lparr>
               transactions := filter (\<lambda>t. t_user_id t \<noteq> user_of m) (transactions (db m)),
               budgets := filter (\<lambda>b. b_user_id b \<noteq> user_of m) (budgets (db m))\<rparr>"
  from True obtain s2 s3 where
    1: "restore_transactions (user_of m) (doc_transactions backup) ?cleared = Some s2" and
    2: "restore_budgets (user_of m) (dt_month now) (dt_year now) (doc_budgets backup) s2 = Some s3" and
    3: "snd (restore_data now m backup) = m\<lparr>db := s3\<rparr>"
    by (auto simp: restore_data_def Let_def split: if_splits option.splits)
  from restore_transactions_frame [OF 1 assms] restore_budgets_frame [OF 2 assms] 3 assms
  show ?thesis
    by (simp add: rows_of_def filter_other_user filter_other_user_b)
qed

lemma update_frame:
  "v \<noteq> user_of m \<Longrightarrow>
   rows_of v (snd (update_transaction m tid amount category description)) = rows_of v m"
proof -
  assume v: "v \<noteq> user_of m"
  have "filter (\<lambda>t. t_user_id t = v)
          (map (\<lambda>t. if matches tid (user_of m) t
                     then apply_updates amount category description t else t) ts)
        = filter (\<lambda>t. t_user_id t = v) ts" for ts
    using v by (induction ts) (auto simp: matches_def apply_updates_def)
  then show ?thesis
    by (simp add: update_transaction_def rows_of_def)
qed

lemma delete_frame:
  "v \<noteq> user_of m \<Longrightarrow> rows_of v (snd (delete_transaction m tid)) = rows_of v m"
proof -
  assume v: "v \<noteq> user_of m"
  have "filter (\<lambda>t. t_user_id t = v) (filter (\<lambda>t. \<not> matches tid (user_of m) t) ts)
        = filter (\<lambda>t. t_user_id t = v) ts" for ts
    using v by (induction ts) (auto simp: matches_def)
  then show ?thesis
    by (simp add: delete_transaction_def rows_of_def)
qed

lemma add_frame:
  "v \<noteq> user_of m \<Longrightarrow>
   rows_of v (snd (add_transaction now now2 m ty amount category description)) = rows_of v m"
  by (auto simp: add_transaction_def rows_of_def insert_transaction_def Let_def
      split: option.splits)

lemma set_budget_frame:
  "v \<noteq> user_of m \<Longrightarrow> rows_of v (snd (set_budget now m category amount)) = rows_of v m"
proof -
  assume v: "v \<noteq> user_of m"
  have "filter (\<lambda>b. b_user_id b = v) (filter (\<lambda>b. \<not> budget_key (user_of m) c mo y b) bs)
        = filter (\<lambda>b. b_user_id b = v) bs" for bs c mo y
    using v by (induction bs) (auto simp: budget_key_def)
  then show ?thesis using v
    by (auto simp: set_budget_def rows_of_def insert_or_replace_budget_def Let_def
        split: option.splits)
qed

lemma register_frame: "rows_of v (snd (register_user H m username password)) = rows_of v m"
  by (simp add: register_user_def rows_of_def Let_def)

lemma login_frame: "rows_of v (snd (login H m username password)) = rows_of v m"
  by (simp add: login_def rows_of_def Let_def split: list.splits)

lemma perform_frame:
  "v \<noteq> user_of m \<Longrightarrow> rows_of v (snd (perform H m op)) = rows_of v m"
  by (cases op)
    (simp_all add: split_beta register_frame login_frame add_frame update_frame delete_frame
      set_budget_frame restore_data_frame)


section \<open>What a restore does\<close>

lemma restore_transactions_None:
  "\<not> list_all transaction_ok ds \<Longrightarrow> restore_transactions u ds s = None"
proof (induction ds arbitrary: s)
  case Nil
  then show ?case by simp
next
  case (Cons d ds)
  show ?case
  proof (cases "transaction_ok d")
    case False
    then show ?thesis by (auto simp: transaction_ok_def insert_transaction_def)
  next
    case True
    with Cons.prems have "\<not> list_all transaction_ok ds" by simp
    with Cons.IH show ?thesis by (simp split: option.splits)
  qed
qed

lemma restore_transactions_Some:
  "list_all transaction_ok ds \<Longrightarrow>
   \<exists>s2 new. restore_transactions u ds s = Some s2
      \<and> transactions s2 = transactions s @ new
      \<and> map row_fields new = map dict_fields ds
      \<and> list_all (\<lambda>t. t_user_id t = u) new
      \<and> budgets s2 = budgets s \<and> users s2 = users s
      \<and> seq_users s2 = seq_users s \<and> seq_budgets s2 = seq_budgets s"
proof (induction ds arbitrary: s)
  case Nil
  then show ?case by simp
next
  case (Cons d ds)
  then have tok: "transaction_ok d" and rest: "list_all transaction_ok ds"
    by simp_all
  from tok have ok: "d_type d = ''income'' \<or> d_type d = ''expense''" "d_amount d \<noteq> NaN"
    by (simp_all add: transaction_ok_def)
  let ?i = "next_rowid (seq_transactions s) (map t_id (transactions s))"
  let ?row = "\<lparr>t_id = ?i, t_user_id = u, t_type = d_type d, t_amount = d_amount d,
               t_category = d_category d, t_description = d_description d, t_date = d_date d\<rparr>"
  let ?s1 = "s\<lparr>transactions := transactions s @ [?row], seq_transactions := ?i\<rparr>"
  have ins: "insert_transaction u (d_type d) (d_amount d) (d_category d) (d_description d)
               (d_date d) s = Some ?s1"
    using ok by (simp add: insert_transaction_def Let_def)
  from Cons.IH [OF rest, of ?s1] obtain s2 new where
    r: "restore_transactions u ds ?s1 = Some s2"
       "transactions s2 = transactions ?s1 @ new"
       "map row_fields new = map dict_fields ds"
       "list_all (\<lambda>t. t_user_id t = u) new"
       "budgets s2 = budgets ?s1" "users s2 = users ?s1"
       "seq_users s2 = seq_users ?s1" "seq_budgets s2 = seq_budgets ?s1"
    by blast
  have "restore_transactions u (d # ds) s = Some s2"
    using ins r(1) by simp
  moreover have "transactions s2 = transactions s @ (?row # new)"
    using r(2) by simp
  moreover have "map row_fields (?row # new) = map dict_fields (d # ds)"
    using r(3) by (simp add: row_fields_def dict_fields_def)
  moreover have "list_all (\<lambda>t. t_user_id t = u) (?row # new)"
    using r(4) by simp
  ultimately show ?case using r(5-8) by (intro exI [of _ s2] exI [of _ "?row # new"]) simp
qed

lemma restore_budgets_None:
  "(\<not> list_all (\<lambda>b. bd_amount b \<noteq> NaN) bs \<or> \<not> distinct (map bd_category bs)) \<Longrightarrow>
   restore_budgets u mo y bs s = None"
proof (induction bs arbitrary: s)
  case Nil
  then show ?case by simp
next
  case (Cons b bs)
  show ?case
  proof (cases "insert_budget u (bd_category b) (bd_amount b) mo y s")
    case None
    then show ?thesis by simp
  next
    case (Some s1)
    then have nn: "bd_amount b \<noteq> NaN"
      and s1: "s1 = s\<lparr>budgets := budgets s @
                   [\<lparr>b_id = next_rowid (seq_budgets s) (map b_id (budgets s)), b_user_id = u,
                     b_category = bd_category b, b_amount = bd_amount b,
                     b_month = mo, b_year = y\<rparr>],
                 seq_budgets := next_rowid (seq_budgets s) (map b_id (budgets s))\<rparr>"
      by (auto simp: insert_budget_def Let_def split: if_splits)
    show ?thesis
    proof (cases "bd_category b \<in> set (map bd_category bs)")
      case True
      then obtain b' where b': "b' \<in> set bs" "bd_category b' = bd_category b" by auto
      have "list_ex (budget_key u (bd_category b') mo y) (budgets s1)"
        using b'(2) by (simp add: s1 budget_key_def)
      then have clash: "\<exists>b' \<in> set bs. list_ex (budget_key u (bd_category b') mo y) (budgets s1)"
        using b'(1) by blast
      have "\<And>s. (\<exists>b' \<in> set bs. list_ex (budget_key u (bd_category b') mo y) (budgets s))
               \<Longrightarrow> restore_budgets u mo y bs s = None"
      proof (induction bs)
        case Nil
        then show ?case by simp
      next
        case (Cons c cs)
        show ?case
        proof (cases "insert_budget u (bd_category c) (bd_amount c) mo y s")
          case None
          then show ?thesis by simp
        next
          case (Some s')
          then have nc: "\<not> list_ex (budget_key u (bd_category c) mo y) (budgets s)"
            and s': "set (budgets s) \<subseteq> set (budgets s')"
            by (auto simp: insert_budget_def Let_def split: if_splits)
          from Cons.prems nc obtain b' where
            "b' \<in> set cs" "list_ex (budget_key u (bd_category b') mo y) (budgets s)"
            by auto
          with s' have "\<exists>b' \<in> set cs. list_ex (budget_key u (bd_category b') mo y) (budgets s')"
            by (auto simp: list_ex_iff)
          with Cons.IH Some show ?thesis by simp
        qed
      qed
      from this [OF clash] Some show ?thesis by simp
    next
      case False
      with Cons.prems nn
      have "\<not> list_all (\<lambda>b. bd_amount b \<noteq> NaN) bs \<or> \<not> distinct (map bd_category bs)"
        by auto
      with Cons.IH Some show ?thesis by simp
    qed
  qed
qed

lemma restore_budgets_Some:
  "list_all (\<lambda>b. bd_amount b \<noteq> NaN) bs \<Longrightarrow> distinct (map bd_category bs) \<Longrightarrow>
   \<not> list_ex (\<lambda>r. b_user_id r = u \<and> b_month r = mo \<and> b_year r = y
                   \<and> b_category r \<in> set (map bd_category bs)) (budgets s) \<Longrightarrow>
   \<exists>s2 new. restore_budgets u mo y bs s = Some s2
      \<and> budgets s2 = budgets s @ new
      \<and> map budget_fields new = map (\<lambda>b. (u, bd_category b, bd_amount b, mo, y)) bs
      \<and> transactions s2 = transactions s \<and> users s2 = users s
      \<and> seq_users s2 = seq_users s \<and> seq_transactions s2 = seq_transactions s"
proof (induction bs arbitrary: s)
  case Nil
  then show ?case by simp
next
  case (Cons b bs)
  let ?i = "next_rowid (seq_budgets s) (map b_id (budgets s))"
  let ?row = "\<lparr>b_id = ?i, b_user_id = u, b_category = bd_category b, b_amount = bd_amount b,
               b_month = mo, b_year = y\<rparr>"
  let ?s1 = "s\<lparr>budgets := budgets s @ [?row], seq_budgets := ?i\<rparr>"
  from Cons.prems have nn: "bd_amount b \<noteq> NaN"
    and noclash: "\<not> list_ex (budget_key u (bd_category b) mo y) (budgets s)"
    by (auto simp: list_ex_iff budget_key_def)
  then have ins: "insert_budget u (bd_category b) (bd_amount b) mo y s = Some ?s1"
    by (simp add: insert_budget_def Let_def)
  have pre: "\<not> list_ex (\<lambda>r. b_user_id r = u \<and> b_month r = mo \<and> b_year r = y
                   \<and> b_category r \<in> set (map bd_category bs)) (budgets ?s1)"
    using Cons.prems by (auto simp: list_ex_iff)
  from Cons.prems have "list_all (\<lambda>b. bd_amount b \<noteq> NaN) bs" "distinct (map bd_category bs)"
    by auto
  from Cons.IH [OF this pre] obtain s2 new where
    r: "restore_budgets u mo y bs ?s1 = Some s2"
       "budgets s2 = budgets ?s1 @ new"
       "map budget_fields new = map (\<lambda>b. (u, bd_category b, bd_amount b, mo, y)) bs"
       "transactions s2 = transactions ?s1" "users s2 = users ?s1"
       "seq_users s2 = seq_users ?s1" "seq_transactions s2 = seq_transactions ?s1"
    by blast
  have "restore_budgets u mo y (b # bs) s = Some s2" using ins r(1) by simp
  moreover have "budgets s2 = budgets s @ (?row # new)" using r(2) by simp
  moreover have "map budget_fields (?row # new)
                   = map (\<lambda>b. (u, bd_category b, bd_amount b, mo, y)) (b # bs)"
    using r(3) by (simp add: budget_fields_def)
  ultimately show ?case using r(4-7)
    by (intro exI [of _ s2] exI [of _ "?row # new"]) simp
qed

lemma logged_in_update [simp]:
  "logged_in (m\<lparr>db := s\<rparr>) = logged_in m" "user_of (m\<lparr>db := s\<rparr>) = user_of m"
  by (simp_all add: logged_in_def user_of_def)

lemma restore_data_fails:
  assumes "logged_in m" "doc_user_id backup = user_of m" "\<not> satisfies_constraints backup"
  shows "restore_data now m backup = (Inl StorageFailure, m)"
proof (cases "list_all transaction_ok (doc_transactions backup)")
  case False
  from restore_transactions_None [OF False] assms(1,2)
  show ?thesis by (simp add: restore_data_def Let_def)
next
  case True
  with assms(3) have "\<not> list_all (\<lambda>b. bd_amount b \<noteq> NaN) (doc_budgets backup)
      \<or> \<not> distinct (map bd_category (doc_budgets backup))"
    by (simp add: satisfies_constraints_def)
  from restore_budgets_None [OF this] assms(1,2)
  show ?thesis by (simp add: restore_data_def Let_def split: option.splits)
qed

lemma restore_data_succeeds:
  assumes "logged_in m" "doc_user_id backup = user_of m" "satisfies_constraints backup"
  shows "\<exists>m2 newt newb. restore_data now m backup = (Inr (), m2)
     \<and> current_user m2 = current_user m \<and> users (db m2) = users (db m)
     \<and> transactions (db m2)
         = filter (\<lambda>t. t_user_id t \<noteq> user_of m) (transactions (db m)) @ newt
     \<and> map row_fields newt = map dict_fields (doc_transactions backup)
     \<and> list_all (\<lambda>t. t_user_id t = user_of m) newt
     \<and> budgets (db m2) = filter (\<lambda>b. b_user_id b \<noteq> user_of m) (budgets (db m)) @ newb
     \<and> map budget_fields newb
         = map (\<lambda>b. (user_of m, bd_category b, bd_amount b, dt_month now, dt_year now))
             (doc_budgets backup)"
proof -
  let ?u = "user_of m"
  let ?cleared = "(db m)\<lparr>
               transactions := filter (\<lambda>t. t_user_id t \<noteq> ?u) (transactions (db m)),
               budgets := filter (\<lambda>b. b_user_id b \<noteq> ?u) (budgets (db m))\<rparr>"
  from assms(3) have ok: "list_all transaction_ok (doc_transactions backup)"
    "list_all (\<lambda>b. bd_amount b \<noteq> NaN) (doc_budgets backup)"
    "distinct (map bd_category (doc_budgets backup))"
    by (simp_all add: satisfies_constraints_def)
  from restore_transactions_Some [OF ok(1), of ?u ?cleared] obtain s2 newt where
    t: "restore_transactions ?u (doc_transactions backup) ?cleared = Some s2"
       "transactions s2 = transactions ?cleared @ newt"
       "map row_fields newt = map dict_fields (doc_transactions backup)"
       "list_all (\<lambda>t. t_user_id t = ?u) newt"
       "budgets s2 = budgets ?cleared" "users s2 = users ?cleared"
    by blast
  have noclash: "\<not> list_ex (\<lambda>r. b_user_id r = ?u \<and> b_month r = dt_month now
                   \<and> b_year r = dt_year now
                   \<and> b_category r \<in> set (map bd_category (doc_budgets backup))) (budgets s2)"
    using t(5) by (simp add: list_ex_iff)
  from restore_budgets_Some [OF ok(2,3) noclash] obtain s3 newb where
    b: "restore_budgets ?u (dt_month now) (dt_year now) (doc_budgets backup) s2 = Some s3"
       "budgets s3 = budgets s2 @ newb"
       "map budget_fields newb
         = map (\<lambda>b. (?u, bd_category b, bd_amount b, dt_month now, dt_year now))
             (doc_budgets backup)"
       "transactions s3 = transactions s2" "users s3 = users s2"
    by blast
  have "restore_data now m backup = (Inr (), m\<lparr>db := s3\<rparr>)"
    using assms(1,2) t(1) b(1) by (simp add: restore_data_def Let_def)
  then show ?thesis
    using t b by (intro exI [of _ "m\<lparr>db := s3\<rparr>"] exI [of _ newt] exI [of _ newb]) simp
qed

lemma restore_data_status:
  "fst (restore_data now m backup) =
     (if \<not> logged_in m then Inl NotAuthenticated
      else if doc_user_id backup \<noteq> user_of m then Inl OwnershipMismatch
      else if satisfies_constraints backup then Inr () else Inl StorageFailure)"
proof -
  consider "\<not> logged_in m" | "logged_in m" "doc_user_id backup \<noteq> user_of m"
    | "logged_in m" "doc_user_id backup = user_of m" "satisfies_constraints backup"
    | "logged_in m" "doc_user_id backup = user_of m" "\<not> satisfies_constraints backup"
    by blast
  then show ?thesis
  proof cases
    case 1
    then show ?thesis by (simp add: restore_data_def)
  next
    case 2
    then show ?thesis by (simp add: restore_data_def)
  next
    case 3
    from restore_data_succeeds [OF this, of now] 3 show ?thesis by auto
  next
    case 4
    from restore_data_fails [OF this, of now] 4 show ?thesis by simp
  qed
qed


section \<open>Cross-user isolation\<close>

lemma filter_selected_own:
  "filter (selected u s e c k) (filter (\<lambda>t. t_user_id t = u) ts) = filter (selected u s e c k) ts"
  by (induction ts) (auto simp: selected_def)

lemma get_transactions_own:
  assumes "current_user m2 = current_user m"
    and "filter (\<lambda>t. t_user_id t = user_of m) (transactions (db m2))
         = filter (\<lambda>t. t_user_id t = user_of m) (transactions (db m))"
  shows "get_transactions m2 s e c k = get_transactions m s e c k"
proof -
  have u: "user_of m2 = user_of m" "logged_in m2 = logged_in m"
    using assms(1) by (simp_all add: user_of_def logged_in_def)
  have "filter (selected (user_of m) s e c k) (transactions (db m2))
        = filter (selected (user_of m) s e c k) (transactions (db m))"
    using filter_selected_own [of "user_of m" s e c k "transactions (db m2)"]
      filter_selected_own [of "user_of m" s e c k "transactions (db m)"] assms(2) by simp
  then show ?thesis by (simp add: get_transactions_def u)
qed

lemma filter_budget_key_own:
  "filter (budget_key u c mo y) (filter (\<lambda>b. b_user_id b = u) bs) = filter (budget_key u c mo y) bs"
  by (induction bs) (auto simp: budget_key_def)

lemma filter_month_own:
  "filter (\<lambda>b. b_user_id b = u \<and> b_month b = mo \<and> b_year b = y) (filter (\<lambda>b. b_user_id b = u) bs)
     = filter (\<lambda>b. b_user_id b = u \<and> b_month b = mo \<and> b_year b = y) bs"
  by (induction bs) auto

lemma get_budgets_own:
  assumes "current_user m2 = current_user m"
    and "filter (\<lambda>b. b_user_id b = user_of m) (budgets (db m2))
         = filter (\<lambda>b. b_user_id b = user_of m) (budgets (db m))"
  shows "get_budgets now m2 = get_budgets now m"
proof -
  have u: "user_of m2 = user_of m" "logged_in m2 = logged_in m"
    using assms(1) by (simp_all add: user_of_def logged_in_def)
  have "filter (\<lambda>b. b_user_id b = user_of m \<and> b_month b = dt_month now \<and> b_year b = dt_year now)
          (budgets (db m2))
        = filter (\<lambda>b. b_user_id b = user_of m \<and> b_month b = dt_month now \<and> b_year b = dt_year now)
          (budgets (db m))"
    using filter_month_own [of "user_of m" "dt_month now" "dt_year now" "budgets (db m2)"]
      filter_month_own [of "user_of m" "dt_month now" "dt_year now" "budgets (db m)"] assms(2)
    by simp
  then show ?thesis by (simp add: get_budgets_def u)
qed

lemma insert_desc_map:
  "(\<And>t. t_date (f t) = t_date t) \<Longrightarrow>
   map f (insert_desc t xs) = insert_desc (f t) (map f xs)"
  by (induction xs) auto

lemma order_by_date_desc_map:
  "(\<And>t. t_date (f t) = t_date t) \<Longrightarrow>
   map f (order_by_date_desc xs) = order_by_date_desc (map f xs)"
  by (induction xs) (auto simp: order_by_date_desc_def insert_desc_map)

lemma selected_forget_id [simp]:
  "selected u s e c k (t\<lparr>t_id := i\<rparr>) = selected u s e c k t"
  by (simp add: selected_def split: option.splits)

lemma filter_selected_map_forget:
  "filter (selected u s e c k) (map (\<lambda>t. t\<lparr>t_id := 0\<rparr>) ts)
     = map (\<lambda>t. t\<lparr>t_id := 0\<rparr>) (filter (selected u s e c k) ts)"
  by (induction ts) auto

lemma amounts_of_query:
  assumes "logged_in m"
  shows "map d_amount (get_transactions m s e c k) =
     map t_amount (order_by_date_desc (filter (selected (user_of m) s e c k)
       (map (\<lambda>t. t\<lparr>t_id := 0\<rparr>)
          (filter (\<lambda>t. t_user_id t = user_of m) (transactions (db m))))))"
proof -
  let ?F = "\<lambda>t::transaction_row. t\<lparr>t_id := 0\<rparr>"
  let ?sel = "selected (user_of m) s e c k"
  have "map d_amount (get_transactions m s e c k)
        = map t_amount (order_by_date_desc (filter ?sel (transactions (db m))))"
    using assms by (simp add: get_transactions_def to_dict_def comp_def)
  also have "\<dots> = map t_amount (map ?F (order_by_date_desc (filter ?sel (transactions (db m)))))"
    by (simp add: comp_def)
  also have "\<dots> = map t_amount (order_by_date_desc (map ?F (filter ?sel (transactions (db m)))))"
    by (subst order_by_date_desc_map) simp_all
  also have "map ?F (filter ?sel (transactions (db m)))
             = map ?F (filter ?sel (filter (\<lambda>t. t_user_id t = user_of m) (transactions (db m))))"
    by (simp only: filter_selected_own)
  also have "\<dots> = filter ?sel (map ?F (filter (\<lambda>t. t_user_id t = user_of m) (transactions (db m))))"
    by (simp only: filter_selected_map_forget)
  finally show ?thesis .
qed

lemma check_budget_own:
  assumes "current_user m2 = current_user m"
    and "filter (\<lambda>b. b_user_id b = user_of m) (budgets (db m2))
         = filter (\<lambda>b. b_user_id b = user_of m) (budgets (db m))"
    and "map (\<lambda>t. t\<lparr>t_id := 0\<rparr>) (filter (\<lambda>t. t_user_id t = user_of m) (transactions (db m2)))
         = map (\<lambda>t. t\<lparr>t_id := 0\<rparr>) (filter (\<lambda>t. t_user_id t = user_of m) (transactions (db m)))"
  shows "check_budget now m2 category amount = check_budget now m category amount"
proof (cases "logged_in m")
  case False
  moreover have "logged_in m2 = logged_in m" using assms(1) by (simp add: logged_in_def)
  ultimately show ?thesis by (simp add: check_budget_def)
next
  case True
  have u: "user_of m2 = user_of m" "logged_in m2" 
    using assms(1) True by (simp_all add: user_of_def logged_in_def)
  have b: "filter (budget_key (user_of m) category (dt_month now) (dt_year now)) (budgets (db m2))
         = filter (budget_key (user_of m) category (dt_month now) (dt_year now)) (budgets (db m))"
    using filter_budget_key_own [of "user_of m" category "dt_month now" "dt_year now" "budgets (db m2)"]
      filter_budget_key_own [of "user_of m" category "dt_month now" "dt_year now" "budgets (db m)"]
      assms(2) by simp
  have a: "map d_amount (get_transactions m2 s e c k) = map d_amount (get_transactions m s e c k)"
    for s e c k
    using amounts_of_query [OF True, of s e c k] amounts_of_query [OF u(2), of s e c k] u(1) assms(3)
    by simp
  show ?thesis
    unfolding check_budget_def Let_def by (simp only: True u b a)
qed

lemma list_ex_matches_own:
  "list_ex (matches tid u) (filter (\<lambda>t. t_user_id t = u) ts) = list_ex (matches tid u) ts"
  by (auto simp: list_ex_iff matches_def)

lemma same_user:
  "current_user m2 = current_user m \<Longrightarrow> user_of m2 = user_of m \<and> logged_in m2 = logged_in m"
  by (simp add: user_of_def logged_in_def)

lemma update_status_own:
  assumes "current_user m2 = current_user m"
    and "filter (\<lambda>t. t_user_id t = user_of m) (transactions (db m2))
         = filter (\<lambda>t. t_user_id t = user_of m) (transactions (db m))"
  shows "fst (update_transaction m2 tid amount category description)
         = fst (update_transaction m tid amount category description)"
proof -
  have "list_ex (matches tid (user_of m)) (transactions (db m2))
        = list_ex (matches tid (user_of m)) (transactions (db m))"
    using list_ex_matches_own [of tid "user_of m" "transactions (db m2)"]
      list_ex_matches_own [of tid "user_of m" "transactions (db m)"] assms(2) by simp
  then show ?thesis using same_user [OF assms(1)]
    by (simp add: update_transaction_def)
qed

lemma delete_status_own:
  assumes "current_user m2 = current_user m"
    and "filter (\<lambda>t. t_user_id t = user_of m) (transactions (db m2))
         = filter (\<lambda>t. t_user_id t = user_of m) (transactions (db m))"
  shows "fst (delete_transaction m2 tid) = fst (delete_transaction m tid)"
proof -
  have "list_ex (matches tid (user_of m)) (transactions (db m2))
        = list_ex (matches tid (user_of m)) (transactions (db m))"
    using list_ex_matches_own [of tid "user_of m" "transactions (db m2)"]
      list_ex_matches_own [of tid "user_of m" "transactions (db m)"] assms(2) by simp
  then show ?thesis using same_user [OF assms(1)]
    by (simp add: delete_transaction_def)
qed

lemma add_status_own:
  assumes "current_user m2 = current_user m"
    and "filter (\<lambda>t. t_user_id t = user_of m) (transactions (db m2))
         = filter (\<lambda>t. t_user_id t = user_of m) (transactions (db m))"
    and "filter (\<lambda>b. b_user_id b = user_of m) (budgets (db m2))
         = filter (\<lambda>b. b_user_id b = user_of m) (budgets (db m))"
  shows "fst (add_transaction now now2 m2 ty amount category description)
         = fst (add_transaction now now2 m ty amount category description)"
proof (cases "logged_in m \<and> (ty = ''income'' \<or> ty = ''expense'') \<and> \<not> amount \<le> 0 \<and> amount \<noteq> NaN")
  case False
  then show ?thesis using same_user [OF assms(1)]
    by (auto simp: add_transaction_def insert_transaction_def)
next
  case True
  let ?row = "\<lambda>i. \<lparr>t_id = i, t_user_id = user_of m, t_type = ty, t_amount = amount,
                  t_category = category, t_description = description,
                  t_date = strftime_datetime now\<rparr>"
  let ?post = "\<lambda>m i. m\<lparr>db := (db m)\<lparr>transactions := transactions (db m) @ [?row i],
                                      seq_transactions := i\<rparr>\<rparr>"
  let ?i = "next_rowid (seq_transactions (db m)) (map t_id (transactions (db m)))"
  let ?i2 = "next_rowid (seq_transactions (db m2)) (map t_id (transactions (db m2)))"
  have 1: "add_transaction now now2 m ty amount category description
           = (Inr (snd (check_budget now2 (?post m ?i) category amount)), ?post m ?i)"
    using True by (simp add: add_transaction_def insert_transaction_def Let_def)
  have 2: "add_transaction now now2 m2 ty amount category description
           = (Inr (snd (check_budget now2 (?post m2 ?i2) category amount)), ?post m2 ?i2)"
    using True same_user [OF assms(1)]
    by (simp add: add_transaction_def insert_transaction_def Let_def)
  have "check_budget now2 (?post m2 ?i2) category amount
        = check_budget now2 (?post m ?i) category amount"
  proof (rule check_budget_own)
    show "current_user (?post m2 ?i2) = current_user (?post m ?i)" using assms(1) by simp
    show "filter (\<lambda>b. b_user_id b = user_of (?post m ?i)) (budgets (db (?post m2 ?i2)))
          = filter (\<lambda>b. b_user_id b = user_of (?post m ?i)) (budgets (db (?post m ?i)))"
      using assms(3) by simp
    show "map (\<lambda>t. t\<lparr>t_id := 0\<rparr>)
            (filter (\<lambda>t. t_user_id t = user_of (?post m ?i)) (transactions (db (?post m2 ?i2))))
          = map (\<lambda>t. t\<lparr>t_id := 0\<rparr>)
            (filter (\<lambda>t. t_user_id t = user_of (?post m ?i)) (transactions (db (?post m ?i))))"
      using assms(2) by simp
  qed
  with 1 2 show ?thesis by simp
qed

lemma perform_outcome_own:
  assumes "current_user m2 = current_user m" "users (db m2) = users (db m)"
    and "rows_of (user_of m) m2 = rows_of (user_of m) m"
  shows "fst (perform H m2 op) = fst (perform H m op)"
proof -
  from assms(3) have t: "filter (\<lambda>t. t_user_id t = user_of m) (transactions (db m2))
         = filter (\<lambda>t. t_user_id t = user_of m) (transactions (db m))"
    and b: "filter (\<lambda>b. b_user_id b = user_of m) (budgets (db m2))
         = filter (\<lambda>b. b_user_id b = user_of m) (budgets (db m))"
    by (simp_all add: rows_of_def)
  note u = same_user [OF assms(1)]
  have g: "get_transactions m2 s e c k = get_transactions m s e c k" for s e c k
    by (rule get_transactions_own [OF assms(1) t])
  have gb: "get_budgets now m2 = get_budgets now m" for now
    by (rule get_budgets_own [OF assms(1) b])
  show ?thesis
  proof (cases op)
    case (Register x y)
    then show ?thesis using assms(2) by (simp add: split_beta register_user_def Let_def)
  next
    case (Login x y)
    then show ?thesis using assms(2) by (simp add: split_beta login_def Let_def split: list.splits)
  next
    case (AddTransaction n1 n2 ty a c d)
    then show ?thesis using add_status_own [OF assms(1) t b] by (simp add: split_beta)
  next
    case (UpdateTransaction tid a c d)
    then show ?thesis using update_status_own [OF assms(1) t] by (simp add: split_beta)
  next
    case (DeleteTransaction tid)
    then show ?thesis using delete_status_own [OF assms(1) t] by (simp add: split_beta)
  next
    case (GetTransactions s e c k)
    then show ?thesis using g by simp
  next
    case (GenerateReport now period)
    then show ?thesis using g u by (simp add: generate_report_def)
  next
    case (SetBudget now c a)
    then show ?thesis using u
      by (simp add: split_beta set_budget_def insert_or_replace_budget_def Let_def)
  next
    case (CheckBudget now c a)
    then show ?thesis using check_budget_own [OF assms(1) b] t by simp
  next
    case (GetBudgets now)
    then show ?thesis using gb by simp
  next
    case (BackupData n1 n2)
    then show ?thesis using g gb u by (simp add: backup_data_def)
  next
    case (RestoreData now backup)
    then show ?thesis using u by (simp add: split_beta restore_data_status)
  qed
qed

lemma get_transactions_rows:
  "d \<in> set (get_transactions m s e c k) \<Longrightarrow>
   \<exists>t \<in> set (transactions (db m)). t_user_id t = user_of m \<and> to_dict t = d"
  by (auto simp: get_transactions_def set_order_by_date_desc selected_def split: if_splits)

lemma delete_transaction_fail_unchanged:
  "fst (delete_transaction m tid) \<noteq> Inr () \<Longrightarrow> snd (delete_transaction m tid) = m"
  by (auto simp: delete_transaction_def split: if_splits)


text \<open>
  Claim C8. Let \<open>A\<close> be the authenticated user and \<open>B\<close> another one. Whatever operation
  \<open>A\<close> performs, the transactions and budgets of \<open>B\<close> are afterwards what they were; the
  outcome of the operation is the same in every state with the same users table and
  the same rows of \<open>A\<close>, so it carries nothing of \<open>B\<close>'s rows; every record a query
  returns is a row owned by \<open>A\<close>; and with the id of a row of \<open>B\<close> (ids are a primary
  key), \<open>delete_transaction\<close> fails with \<open>NotFound\<close>, \<open>update_transaction\<close> never succeeds
  and fails with \<open>NotFound\<close> once its arguments are valid, and neither changes the state.
\<close>

theorem cross_user_isolation:
  assumes "current_user m = Some A" and "A \<noteq> 0" and "B \<noteq> A"
    and "distinct (map t_id (transactions (db m)))"
  shows
    "rows_of B (snd (perform H m op)) = rows_of B m
     \<and> (\<forall>m2. current_user m2 = Some A \<and> users (db m2) = users (db m)
              \<and> rows_of A m2 = rows_of A m \<longrightarrow>
            fst (perform H m2 op) = fst (perform H m op))
     \<and> (\<forall>d \<in> set (get_transactions m s e c k).
            \<exists>t \<in> set (transactions (db m)). t_user_id t = A \<and> to_dict t = d)
     \<and> (\<forall>t \<in> set (transactions (db m)). t_user_id t = B \<longrightarrow>
            delete_transaction m (t_id t) = (Inl NotFound, m)
            \<and> fst (update_transaction m (t_id t) amount category description) \<noteq> Inr ()
            \<and> snd (update_transaction m (t_id t) amount category description) = m
            \<and> ((amount \<noteq> None \<or> category \<noteq> None \<or> description \<noteq> None)
                \<and> (\<forall>a. amount = Some a \<longrightarrow> \<not> a \<le> 0) \<longrightarrow>
               update_transaction m (t_id t) amount category description = (Inl NotFound, m)))"
proof (intro conjI allI ballI impI)
  have u: "user_of m = A" and li: "logged_in m"
    using assms(1,2) by (simp_all add: user_of_def logged_in_def)
  show "rows_of B (snd (perform H m op)) = rows_of B m"
    using perform_frame [of B m H op] assms(3) u by simp
  show "fst (perform H m2 op) = fst (perform H m op)"
    if "current_user m2 = Some A \<and> users (db m2) = users (db m) \<and> rows_of A m2 = rows_of A m"
    for m2
    using that perform_outcome_own [of m2 m H op] assms(1) u by simp
  show "\<exists>t \<in> set (transactions (db m)). t_user_id t = A \<and> to_dict t = d"
    if "d \<in> set (get_transactions m s e c k)" for d
    using get_transactions_rows [OF that] u by simp
  fix t assume t: "t \<in> set (transactions (db m))" "t_user_id t = B"
  have none: "\<not> (\<exists>t' \<in> set (transactions (db m)). t_id t' = t_id t \<and> t_user_id t' = user_of m)"
  proof
    assume "\<exists>t' \<in> set (transactions (db m)). t_id t' = t_id t \<and> t_user_id t' = user_of m"
    then obtain t' where t': "t' \<in> set (transactions (db m))" "t_id t' = t_id t"
      "t_user_id t' = A" using u by auto
    from assms(4) have "inj_on t_id (set (transactions (db m)))"
      by (simp add: distinct_map)
    from this t'(2) t'(1) t(1) have "t' = t"
      by (rule inj_onD)
    with t(2) t'(3) assms(3) show False by simp
  qed
  then have nm: "\<not> list_ex (matches (t_id t) (user_of m)) (transactions (db m))"
    by (simp add: list_ex_matches)
  show "delete_transaction m (t_id t) = (Inl NotFound, m)"
    using li nm by (simp add: delete_transaction_def)
  show "fst (update_transaction m (t_id t) amount category description) \<noteq> Inr ()"
    using li nm by (simp add: update_transaction_def)
  then show "snd (update_transaction m (t_id t) amount category description) = m"
    using update_transaction_fail_unchanged [OF surjective_pairing] by blast
  show "update_transaction m (t_id t) amount category description = (Inl NotFound, m)"
    if "(amount \<noteq> None \<or> category \<noteq> None \<or> description \<noteq> None)
        \<and> (\<forall>a. amount = Some a \<longrightarrow> \<not> a \<le> 0)"
    using that li nm by (auto simp: update_transaction_def split: option.splits)
qed


text \<open>
  In the two-user state alice (1) is logged in and bob (2) owns transaction 2 and a
  budget: deleting or updating transaction 2 is \<open>NotFound\<close>, bob's rows stay, alice's
  query shows her row only, and her budget list is the same with bob's budget removed.
\<close>

theorem cross_user_isolation_witness:
  "current_user two_users = Some 1
   \<and> distinct (map t_id (transactions (db two_users)))
   \<and> rows_of 2 (snd (perform rev two_users (DeleteTransaction 2))) = rows_of 2 two_users
   \<and> fst (perform rev (two_users\<lparr>db := (db two_users)\<lparr>budgets := []\<rparr>\<rparr>) (GetBudgets (nov 4)))
       = fst (perform rev two_users (GetBudgets (nov 4)))
   \<and> map d_id (get_transactions two_users None None None None) = [1]
   \<and> delete_transaction two_users 2 = (Inl NotFound, two_users)
   \<and> update_transaction two_users 2 (Some (Finite 1)) None None = (Inl NotFound, two_users)"
proof -
  have cu: "current_user two_users = Some 1"
    and d: "distinct (map t_id (transactions (db two_users)))"
    by (simp_all add: two_users_def)
  have ne: "(1::int) \<noteq> 0" "(2::int) \<noteq> 1" by simp_all
  note iso = cross_user_isolation [OF cu ne d]
  let ?bob = "\<lparr>t_id = 2, t_user_id = 2, t_type = ''expense'', t_amount = Finite 25,
                 t_category = ''fun'', t_description = ''cinema'',
                 t_date = ''2026-11-03 10:00:00''\<rparr>"
  have bob: "?bob \<in> set (transactions (db two_users))"
    by (simp add: two_users_def)
  have 1: "rows_of 2 (snd (perform rev two_users (DeleteTransaction 2))) = rows_of 2 two_users"
    using iso [where H = rev and op = "DeleteTransaction 2", THEN conjunct1] .
  have "current_user (two_users\<lparr>db := (db two_users)\<lparr>budgets := []\<rparr>\<rparr>) = Some 1
        \<and> users (db (two_users\<lparr>db := (db two_users)\<lparr>budgets := []\<rparr>\<rparr>)) = users (db two_users)
        \<and> rows_of 1 (two_users\<lparr>db := (db two_users)\<lparr>budgets := []\<rparr>\<rparr>) = rows_of 1 two_users"
    by (simp add: two_users_def rows_of_def)
  then have 2: "fst (perform rev (two_users\<lparr>db := (db two_users)\<lparr>budgets := []\<rparr>\<rparr>) (GetBudgets (nov 4)))
       = fst (perform rev two_users (GetBudgets (nov 4)))"
    using iso [where H = rev and op = "GetBudgets (nov 4)", THEN conjunct2, THEN conjunct1]
    by blast
  have 34: "delete_transaction two_users 2 = (Inl NotFound, two_users)
            \<and> update_transaction two_users 2 (Some (Finite 1)) None None
                = (Inl NotFound, two_users)"
    using iso [where amount = "Some (Finite 1)" and category = None and description = None,
               THEN conjunct2, THEN conjunct2, THEN conjunct2, THEN bspec, OF bob]
    by simp
  have 5: "map d_id (get_transactions two_users None None None None) = [1]"
    by (simp add: get_transactions_def two_users_def logged_in_def user_of_def
        order_by_date_desc_def to_dict_def)
  show ?thesis using cu d 1 2 34 5 by simp
qed

section \<open>Restoring a backup\<close>

lemma rows_of_restored:
  "list_all (\<lambda>t. t_user_id t = u) new \<Longrightarrow>
   filter (\<lambda>t. t_user_id t = u) (filter (\<lambda>t. t_user_id t \<noteq> u) ts @ new) = new"
  by (induction ts) (auto simp: list_all_iff filter_id_conv)

lemma budget_rows_restored:
  "map budget_fields new = map (\<lambda>b. (u, f b)) bs \<Longrightarrow>
   filter (\<lambda>b. b_user_id b = u) (filter (\<lambda>b. b_user_id b \<noteq> u) old @ new) = new"
proof -
  assume a: "map budget_fields new = map (\<lambda>b. (u, f b)) bs"
  have "map b_user_id new = map fst (map budget_fields new)"
    by (simp add: budget_fields_def comp_def)
  also have "\<dots> = map (\<lambda>b. u) bs" by (simp add: a comp_def)
  finally have "\<forall>b \<in> set new. b_user_id b = u"
    by (metis (mono_tags, lifting) in_set_conv_nth length_map nth_map)
  then show ?thesis by (induction old) (auto simp: filter_id_conv)
qed

text \<open>
  Claim C5, as the code has it. For a logged-in user, \<open>restore_data\<close> fails with
  \<open>OwnershipMismatch\<close> and leaves the state unchanged when the document's \<open>user_id\<close> is
  not the current user. When the ids match and the rows of the document satisfy the
  table constraints, it succeeds, and afterwards the user's transactions are exactly
  the document's (same type, amount, category, description and date, in the document's
  order) and the user's budgets exactly the document's, stamped with the month and year
  of the clock: nothing the user had before is left. When the ids match and a row
  violates a constraint, it fails with \<open>StorageFailure\<close> and leaves the state unchanged.
\<close>

theorem restore_data_replaces:
  assumes "logged_in m"
  shows
    "(doc_user_id backup \<noteq> user_of m \<longrightarrow>
        restore_data now m backup = (Inl OwnershipMismatch, m))
     \<and> (doc_user_id backup = user_of m \<and> satisfies_constraints backup \<longrightarrow>
          (\<exists>m2. restore_data now m backup = (Inr (), m2)
             \<and> map row_fields (fst (rows_of (user_of m) m2))
                 = map dict_fields (doc_transactions backup)
             \<and> map budget_fields (snd (rows_of (user_of m) m2))
                 = map (\<lambda>b. (user_of m, bd_category b, bd_amount b, dt_month now, dt_year now))
                     (doc_budgets backup)))
     \<and> (doc_user_id backup = user_of m \<and> \<not> satisfies_constraints backup \<longrightarrow>
          restore_data now m backup = (Inl StorageFailure, m))"
proof (intro conjI impI)
  assume "doc_user_id backup \<noteq> user_of m"
  with assms show "restore_data now m backup = (Inl OwnershipMismatch, m)"
    by (simp add: restore_data_def)
next
  assume a: "doc_user_id backup = user_of m \<and> satisfies_constraints backup"
  from restore_data_succeeds [OF assms, of backup now] a obtain m2 newt newb where
    r: "restore_data now m backup = (Inr (), m2)"
       "transactions (db m2)
         = filter (\<lambda>t. t_user_id t \<noteq> user_of m) (transactions (db m)) @ newt"
       "map row_fields newt = map dict_fields (doc_transactions backup)"
       "list_all (\<lambda>t. t_user_id t = user_of m) newt"
       "budgets (db m2) = filter (\<lambda>b. b_user_id b \<noteq> user_of m) (budgets (db m)) @ newb"
       "map budget_fields newb
         = map (\<lambda>b. (user_of m, bd_category b, bd_amount b, dt_month now, dt_year now))
             (doc_budgets backup)"
    by blast
  have "fst (rows_of (user_of m) m2) = newt"
    unfolding rows_of_def fst_conv r(2) by (rule rows_of_restored [OF r(4)])
  moreover have "snd (rows_of (user_of m) m2) = newb"
    unfolding rows_of_def snd_conv r(5) by (rule budget_rows_restored [OF r(6)])
  ultimately show "\<exists>m2. restore_data now m backup = (Inr (), m2)
             \<and> map row_fields (fst (rows_of (user_of m) m2))
                 = map dict_fields (doc_transactions backup)
             \<and> map budget_fields (snd (rows_of (user_of m) m2))
                 = map (\<lambda>b. (user_of m, bd_category b, bd_amount b, dt_month now, dt_year now))
                     (doc_budgets backup)"
    using r(1,3,6) by auto
next
  assume "doc_user_id backup = user_of m \<and> \<not> satisfies_constraints backup"
  with restore_data_fails [OF assms, of backup now]
  show "restore_data now m backup = (Inl StorageFailure, m)" by simp
qed

text \<open>
  The claim as stated promises the replacement whenever the ids match. A document of
  alice's with two budgets for the same category is refused by the UNIQUE constraint:
  nothing is replaced, and her transaction is still there although the document has none.
\<close>

theorem restore_data_clash_counterexample:
  "logged_in two_users \<and> doc_user_id clashing_backup = user_of two_users
   \<and> restore_data (nov 4) two_users clashing_backup = (Inl StorageFailure, two_users)
   \<and> map row_fields (fst (rows_of 1 (snd (restore_data (nov 4) two_users clashing_backup))))
       \<noteq> map dict_fields (doc_transactions clashing_backup)"
proof -
  have li: "logged_in two_users" and u: "user_of two_users = 1"
    using two_users_logged_in by simp_all
  have id: "doc_user_id clashing_backup = user_of two_users"
    by (simp add: u clashing_backup_def)
  have bad: "\<not> satisfies_constraints clashing_backup"
    by (simp add: satisfies_constraints_def clashing_backup_def)
  have r: "restore_data (nov 4) two_users clashing_backup = (Inl StorageFailure, two_users)"
    by (rule restore_data_fails [OF li id bad])
  have "fst (rows_of 1 two_users) \<noteq> []"
    by (simp add: rows_of_def two_users_def)
  then show ?thesis using li id r by (simp add: clashing_backup_def)
qed

text \<open>A document of another user, a well-formed one of alice's, and the clashing one.\<close>

theorem restore_data_replaces_witness:
  "logged_in two_users
   \<and> restore_data (nov 4) two_users (alice_backup\<lparr>doc_user_id := 2\<rparr>)
       = (Inl OwnershipMismatch, two_users)
   \<and> (\<exists>m2. restore_data (nov 4) two_users alice_backup = (Inr (), m2)
         \<and> map row_fields (fst (rows_of 1 m2))
             = [(''income'', Finite 1500, ''salary'', ''october'', ''2026-10-30 09:00:00'')]
         \<and> map budget_fields (snd (rows_of 1 m2)) = [(1, ''food'', Finite 100, 11, 2026)])
   \<and> restore_data (nov 4) two_users clashing_backup = (Inl StorageFailure, two_users)"
proof -
  have li: "logged_in two_users" and u: "user_of two_users = 1"
    using two_users_logged_in by simp_all
  have ok: "satisfies_constraints alice_backup"
    by (simp add: satisfies_constraints_def alice_backup_def transaction_ok_def)
  have bad: "\<not> satisfies_constraints clashing_backup"
    by (simp add: satisfies_constraints_def clashing_backup_def)
  have 1: "restore_data (nov 4) two_users (alice_backup\<lparr>doc_user_id := 2\<rparr>)
       = (Inl OwnershipMismatch, two_users)"
    using restore_data_replaces [OF li, of "alice_backup\<lparr>doc_user_id := 2\<rparr>" "nov 4"] u
    by simp
  have 2: "\<exists>m2. restore_data (nov 4) two_users alice_backup = (Inr (), m2)
         \<and> map row_fields (fst (rows_of 1 m2))
             = [(''income'', Finite 1500, ''salary'', ''october'', ''2026-10-30 09:00:00'')]
         \<and> map budget_fields (snd (rows_of 1 m2)) = [(1, ''food'', Finite 100, 11, 2026)]"
    using restore_data_replaces [OF li, of alice_backup "nov 4"] u ok
    by (simp add: alice_backup_def dict_fields_def nov_def)
  have 3: "restore_data (nov 4) two_users clashing_backup = (Inl StorageFailure, two_users)"
    using restore_data_replaces [OF li, of clashing_backup "nov 4"] u bad
    by (simp add: clashing_backup_def)
  show ?thesis using li 1 2 3 by simp
qed

(* round trip *)

section \<open>Backup, then restore\<close>

lemma dict_fields_to_dict [simp]: "dict_fields (to_dict t) = row_fields t"
  by (simp add: dict_fields_def to_dict_def row_fields_def)

lemma backup_transactions_ok:
  assumes "constraints_hold (db m)"
  shows "list_all transaction_ok (get_transactions m s e c k)"
proof -
  from assms have "\<forall>t \<in> set (transactions (db m)).
      (t_type t = ''income'' \<or> t_type t = ''expense'') \<and> t_amount t \<noteq> NaN"
    by (simp add: constraints_hold_def list_all_iff)
  then show ?thesis
    by (auto simp: get_transactions_def list_all_iff set_order_by_date_desc transaction_ok_def
        to_dict_def)
qed

lemma backup_budgets_ok:
  assumes "constraints_hold (db m)"
  shows "list_all (\<lambda>b. bd_amount b \<noteq> NaN) (get_budgets now m)
         \<and> distinct (map bd_category (get_budgets now m))"
proof (cases "logged_in m")
  case False
  then show ?thesis by (simp add: get_budgets_def)
next
  case True
  let ?P = "\<lambda>b. b_user_id b = user_of m \<and> b_month b = dt_month now \<and> b_year b = dt_year now"
  let ?key = "\<lambda>b. (b_user_id b, b_category b, b_month b, b_year b)"
  let ?bs = "filter ?P (budgets (db m))"
  from assms have nn: "\<forall>b \<in> set (budgets (db m)). b_amount b \<noteq> NaN"
    and dk: "distinct (map ?key (budgets (db m)))"
    by (simp_all add: constraints_hold_def list_all_iff)
  from dk have "distinct (map ?key ?bs)" by (rule distinct_map_filter)
  moreover have "map ?key ?bs
                 = map (\<lambda>c. (user_of m, c, dt_month now, dt_year now)) (map b_category ?bs)"
    by (simp add: comp_def)
  ultimately have "distinct (map b_category ?bs)"
    by (simp only: distinct_map)
  then have "distinct (map b_category (sort_key b_category ?bs))"
    by (simp add: distinct_map)
  moreover have "map bd_category (get_budgets now m) = map b_category (sort_key b_category ?bs)"
    using True by (simp add: get_budgets_def comp_def)
  moreover have "list_all (\<lambda>b. bd_amount b \<noteq> NaN) (get_budgets now m)"
    using True nn by (simp add: get_budgets_def list_all_iff)
  ultimately show ?thesis by simp
qed

text \<open>
  Claim C4. Take a backup in a state \<open>m\<close> that satisfies the constraints of the schema,
  with the user logged in, and restore it in any state \<open>m'\<close> of the same user. Both
  succeed; each restored transaction has the type, amount, category, description and
  date of the backup's, in the backup's order, so the user's transactions are those of
  \<open>m\<close> up to order and ids; and the restored budgets have the backup's categories and
  amounts with the month and year of the clock at restore time (\<open>now3\<close>), whatever the
  clock was when the backup was taken (\<open>now\<close>).
\<close>

theorem backup_restore_round_trip:
  assumes "logged_in m" and "constraints_hold (db m)"
    and "logged_in m'" and "user_of m' = user_of m"
  shows
    "\<exists>backup m2. backup_data now now2 m = Inr backup
       \<and> restore_data now3 m' backup = (Inr (), m2)
       \<and> map row_fields (fst (rows_of (user_of m) m2))
           = map dict_fields (doc_transactions backup)
       \<and> mset (map row_fields (fst (rows_of (user_of m) m2)))
           = mset (map row_fields (fst (rows_of (user_of m) m)))
       \<and> doc_budgets backup = get_budgets now m
       \<and> map budget_fields (snd (rows_of (user_of m) m2))
           = map (\<lambda>b. (user_of m, bd_category b, bd_amount b, dt_month now3, dt_year now3))
               (doc_budgets backup)"
proof -
  let ?backup = "\<lparr>doc_user_id = user_of m, doc_backup_date = strftime_datetime now2,
                 doc_transactions = get_transactions m None None None None,
                 doc_budgets = get_budgets now m\<rparr>"
  have b: "backup_data now now2 m = Inr ?backup"
    using assms(1) by (simp add: backup_data_def)
  have ok: "satisfies_constraints ?backup"
    using backup_transactions_ok [OF assms(2)] backup_budgets_ok [OF assms(2)]
    by (simp add: satisfies_constraints_def)
  have id: "doc_user_id ?backup = user_of m'" using assms(4) by simp
  from restore_data_replaces [OF assms(3), of ?backup now3] id ok obtain m2 where
    r: "restore_data now3 m' ?backup = (Inr (), m2)"
       "map row_fields (fst (rows_of (user_of m') m2)) = map dict_fields (doc_transactions ?backup)"
       "map budget_fields (snd (rows_of (user_of m') m2))
         = map (\<lambda>b. (user_of m', bd_category b, bd_amount b, dt_month now3, dt_year now3))
             (doc_budgets ?backup)"
    by auto
  have "mset (map dict_fields (get_transactions m None None None None))
        = mset (map row_fields (fst (rows_of (user_of m) m)))"
  proof -
    have sel: "selected (user_of m) None None None None = (\<lambda>t. t_user_id t = user_of m)"
      by (rule ext) simp
    have "mset (map row_fields (order_by_date_desc xs)) = mset (map row_fields xs)" for xs
      using mset_order_by_date_desc [of xs] by (metis mset_map)
    then show ?thesis
      using assms(1) by (simp add: get_transactions_def rows_of_def comp_def sel)
  qed
  with r b assms(4) show ?thesis
    by (intro exI [of _ ?backup] exI [of _ m2]) simp
qed

text \<open>
  A backup taken on 31 October holds alice's October budget; restored on 4 November the
  budget is a November one.
\<close>

theorem backup_restore_round_trip_witness:
  "logged_in alice_october \<and> constraints_hold (db alice_october)
   \<and> (\<exists>backup m2. backup_data oct31 oct31 alice_october = Inr backup
         \<and> restore_data (nov 4) alice_october backup = (Inr (), m2)
         \<and> map row_fields (fst (rows_of 1 m2))
             = [(''income'', Finite 1500, ''salary'', ''october'', ''2026-10-30 09:00:00'')]
         \<and> map budget_fields (snd (rows_of 1 m2)) = [(1, ''food'', Finite 100, 11, 2026)])"
proof -
  have li: "logged_in alice_october" and u: "user_of alice_october = 1"
    by (simp_all add: alice_october_def logged_in_def user_of_def)
  have ch: "constraints_hold (db alice_october)"
    by (simp add: alice_october_def constraints_hold_def)
  have g: "get_transactions alice_october None None None None
           = [\<lparr>d_id = 1, d_type = ''income'', d_amount = Finite 1500, d_category = ''salary'',
               d_description = ''october'', d_date = ''2026-10-30 09:00:00''\<rparr>]"
    using li u
    by (simp add: get_transactions_def alice_october_def order_by_date_desc_def to_dict_def)
  have gb: "get_budgets oct31 alice_october = [\<lparr>bd_category = ''food'', bd_amount = Finite 100\<rparr>]"
    using li u by (simp add: get_budgets_def alice_october_def oct31_def)
  from backup_restore_round_trip [OF li ch li refl, of oct31 oct31 "nov 4"]
  obtain backup m2 where
    r: "backup_data oct31 oct31 alice_october = Inr backup"
       "restore_data (nov 4) alice_october backup = (Inr (), m2)"
       "map row_fields (fst (rows_of (user_of alice_october) m2))
           = map dict_fields (doc_transactions backup)"
       "doc_budgets backup = get_budgets oct31 alice_october"
       "map budget_fields (snd (rows_of (user_of alice_october) m2))
           = map (\<lambda>b. (user_of alice_october, bd_category b, bd_amount b,
                        dt_month (nov 4), dt_year (nov 4))) (doc_budgets backup)"
    by blast
  from r(1) li have dt: "doc_transactions backup = get_transactions alice_october None None None None"
    by (auto simp: backup_data_def)
  have "map row_fields (fst (rows_of 1 m2))
             = [(''income'', Finite 1500, ''salary'', ''october'', ''2026-10-30 09:00:00'')]"
    using r(3) by (simp add: u dt g dict_fields_def)
  moreover have "map budget_fields (snd (rows_of 1 m2)) = [(1, ''food'', Finite 100, 11, 2026)]"
    using r(5) by (simp add: u r(4) gb nov_def)
  ultimately show ?thesis using li ch r(1,2)
    by (intro conjI exI [of _ backup] exI [of _ m2])
qed

section \<open>Float addition without rounding\<close>

text \<open>
  A whole number below \<open>2^53\<close> in magnitude is a binary64 number, so adding two floats
  with whole values is exact as long as the sum stays below \<open>2^53\<close>.
\<close>

lemma round_half_even_of_int [simp]: "round_half_even (of_int j) = j"
  by (simp add: round_half_even_def)

lemma floor_log2_of_int:
  assumes "0 < n" "n < 2 ^ 53"
  shows "floor_log2 (of_int n) \<le> 52" "- 1 \<le> floor_log2 (of_int n)"
proof -
  have "(1::rat) \<le> of_int n" using assms(1) by simp
  then have f: "floor_log2 (of_int n) = bitlen n - 1"
    by (simp add: floor_log2_def)
  have "bitlen n \<le> 53"
    using assms(2) by (simp add: bitlen_le_iff_power)
  then show "floor_log2 (of_int n) \<le> 52" using f by simp
  show "- 1 \<le> floor_log2 (of_int n)" using f bitlen_nonneg [of n] by simp
qed

lemma round64_of_nat_int:
  assumes "0 < n" "n < 2 ^ 53"
  shows "round64 (of_int n) = Finite (of_int n)" "round64 (- of_int n) = Finite (- of_int n)"
proof -
  define e where "e = max (floor_log2 (of_int n) - 52) (- 1074)"
  have e: "e \<le> 0" using floor_log2_of_int [OF assms] by (simp add: e_def)
  define k where "k = nat (- e)"
  have p: "pow2 e = 1 / 2 ^ k"
    using e by (cases "e = 0") (simp_all add: pow2_def k_def)
  have "(of_int n :: rat) / pow2 e = of_int (n * 2 ^ k)"
    by (simp add: p)
  then have r: "round_half_even (of_int n / pow2 e) = n * 2 ^ k"
    by (simp only: round_half_even_of_int)
  have v: "of_int (round_half_even (of_int n / pow2 e)) * pow2 e = (of_int n :: rat)"
    unfolding r by (simp add: p)
  have small: "\<not> (2::rat) ^ 1024 \<le> of_int n"
  proof -
    have "(of_int n :: rat) < 2 ^ 53" using assms(2) by (metis of_int_less_numeral_power_cancel_iff)
    also have "\<dots> < (2::rat) ^ 1024" by simp
    finally show ?thesis by simp
  qed
  have a: "\<bar>of_int n :: rat\<bar> = of_int n" "\<bar>- of_int n :: rat\<bar> = of_int n"
    using assms(1) by simp_all
  show "round64 (of_int n) = Finite (of_int n)"
    using assms(1) small v by (simp add: round64_def Let_def a e_def [symmetric])
  show "round64 (- of_int n) = Finite (- of_int n)"
    using assms(1) small v by (simp add: round64_def Let_def a e_def [symmetric])
qed

lemma round64_Ints:
  assumes "a \<in> \<int>" "\<bar>a\<bar> < 2 ^ 53"
  shows "round64 a = Finite a"
proof -
  from assms(1) obtain n where n: "a = of_int n" by (auto elim: Ints_cases)
  with assms(2) have b: "\<bar>n\<bar> < 2 ^ 53"
    by (metis of_int_abs of_int_less_numeral_power_cancel_iff)
  consider "n = 0" | "0 < n" | "n < 0" by linarith
  then show ?thesis
  proof cases
    case 1
    then show ?thesis by (simp add: n round64_def)
  next
    case 2
    with b round64_of_nat_int(1) [of n] show ?thesis by (simp add: n)
  next
    case 3
    with b round64_of_nat_int(2) [of "- n"] show ?thesis by (simp add: n)
  qed
qed

lemma float_add_Ints:
  "a \<in> \<int> \<Longrightarrow> b \<in> \<int> \<Longrightarrow> \<bar>a + b\<bar> < 2 ^ 53 \<Longrightarrow> Finite a + Finite b = Finite (a + b)"
  by (simp add: round64_Ints)

lemma float_zero_add_Ints:
  "a \<in> \<int> \<Longrightarrow> \<bar>a\<bar> < 2 ^ 53 \<Longrightarrow> 0 + Finite a = Finite a"
  by (simp add: zero_pyfloat_def round64_Ints)

section \<open>The range of a report\<close>

lemma append_le_self: "(xs @ ys \<le> xs) = (ys = [])" for xs :: string
  by (induction xs) auto

lemma strftime_date_nonempty [simp]: "strftime_date now \<noteq> []"
  by (simp add: strftime_date_def pad4_def)

lemma strftime_first_of_month:
  "strftime_date (now\<lparr>dt_day := 1\<rparr>)
     = pad4 (dt_year now) @ ''-'' @ pad2 (dt_month now) @ ''-01''"
  by (simp add: strftime_date_def pad2_def digit_def)

lemma strftime_first_of_year:
  "strftime_date (now\<lparr>dt_month := 1, dt_day := 1\<rparr>) = pad4 (dt_year now) @ ''-01-01''"
  by (simp add: strftime_date_def pad2_def digit_def)

lemma selected_range:
  "lo \<noteq> [] \<Longrightarrow> hi \<noteq> [] \<Longrightarrow>
   selected u (Some lo) (Some hi) None None
     = (\<lambda>t. t_user_id t = u \<and> lo \<le> t_date t \<and> t_date t \<le> hi)"
  by (rule ext) (simp add: selected_def)

text \<open>
  A timestamp that \<open>add_transaction\<close> writes is the date followed by a time, so in the
  lexicographic order it comes after the bare date of the same day: a row written today
  is above the upper bound \<open>end_date\<close> of today's report and of today's budget check.
\<close>

lemma timestamp_after_its_date: "\<not> strftime_datetime now \<le> strftime_date now"
  by (simp add: strftime_datetime_def append_le_self)

text \<open>
  What the query of \<open>generate_report\<close> selects. For a logged-in user, any period other
  than \<open>monthly\<close> and \<open>yearly\<close> gives \<open>InvalidPeriod\<close>. Otherwise the report is computed
  (by the loop, from the most recent date down) over exactly the user's rows whose
  \<open>date\<close> string \<open>d\<close> satisfies \<open>lo \<le> d \<le> hi\<close> in the lexicographic order of strings,
  where \<open>hi\<close> is today as \<open>YYYY-MM-DD\<close> and \<open>lo\<close> is \<open>YYYY-MM-01\<close> for \<open>monthly\<close> and
  \<open>YYYY-01-01\<close> for \<open>yearly\<close>; the report carries \<open>lo\<close> and \<open>hi\<close> as its dates.
\<close>

lemma generate_report_selection:
  assumes "logged_in m"
  shows
    "(period \<noteq> ''monthly'' \<and> period \<noteq> ''yearly'' \<longrightarrow>
        generate_report now m period = Inl InvalidPeriod)
     \<and> (period = ''monthly'' \<or> period = ''yearly'' \<longrightarrow>
          (let lo = pad4 (dt_year now) @ ''-''
                      @ (if period = ''monthly'' then pad2 (dt_month now) else ''01'') @ ''-01'';
               hi = pad4 (dt_year now) @ ''-'' @ pad2 (dt_month now) @ ''-'' @ pad2 (dt_day now)
           in \<exists>rows r. generate_report now m period = Inr r
                \<and> mset rows = filter_mset
                     (\<lambda>t. t_user_id t = user_of m \<and> lo \<le> t_date t \<and> t_date t \<le> hi)
                     (mset (transactions (db m)))
                \<and> sorted_wrt (\<lambda>a b. t_date b \<le> t_date a) rows
                \<and> r_period r = period \<and> r_start_date r = lo \<and> r_end_date r = hi
                \<and> (r_total_income r, r_total_expenses r, r_category_expenses r)
                    = report_loop (map to_dict rows) 0 0 []))"
proof (intro conjI impI)
  assume "period \<noteq> ''monthly'' \<and> period \<noteq> ''yearly''"
  with assms show "generate_report now m period = Inl InvalidPeriod"
    by (simp add: generate_report_def)
next
  assume p: "period = ''monthly'' \<or> period = ''yearly''"
  define lo where "lo = (if period = ''monthly'' then strftime_date (now\<lparr>dt_day := 1\<rparr>)
                         else strftime_date (now\<lparr>dt_month := 1, dt_day := 1\<rparr>))"
  define hi where "hi = strftime_date now"
  define rows where "rows = order_by_date_desc
     (filter (selected (user_of m) (Some lo) (Some hi) None None) (transactions (db m)))"
  have ne: "lo \<noteq> []" "hi \<noteq> []" by (simp_all add: lo_def hi_def)
  have lo: "lo = pad4 (dt_year now) @ ''-''
                   @ (if period = ''monthly'' then pad2 (dt_month now) else ''01'') @ ''-01''"
    unfolding lo_def strftime_first_of_month strftime_first_of_year
    by (simp add: strftime_date_def pad2_def digit_def)
  have hi: "hi = pad4 (dt_year now) @ ''-'' @ pad2 (dt_month now) @ ''-'' @ pad2 (dt_day now)"
    by (simp add: hi_def strftime_date_def)
  have g: "get_transactions m (Some lo) (Some hi) None None = map to_dict rows"
    using assms by (simp add: get_transactions_def rows_def)
  obtain ti te ce where loop: "report_loop (map to_dict rows) 0 0 [] = (ti, te, ce)"
    by (cases "report_loop (map to_dict rows) 0 0 []") auto
  let ?r = "\<lparr>r_period = period, r_start_date = lo, r_end_date = hi,
             r_total_income = ti, r_total_expenses = te,
             r_savings = ti - te, r_category_expenses = ce\<rparr>"
  have res: "generate_report now m period = Inr ?r"
    using assms p g loop
    by (auto simp: generate_report_def Let_def lo_def hi_def)
  have ms: "mset rows = filter_mset
               (\<lambda>t. t_user_id t = user_of m \<and> lo \<le> t_date t \<and> t_date t \<le> hi)
               (mset (transactions (db m)))"
    by (simp add: rows_def mset_order_by_date_desc selected_range [OF ne])
  have so: "sorted_wrt (\<lambda>a b. t_date b \<le> t_date a) rows"
    by (simp add: rows_def sorted_order_by_date_desc)
  have "\<exists>rows r. generate_report now m period = Inr r
                \<and> mset rows = filter_mset
                     (\<lambda>t. t_user_id t = user_of m \<and> lo \<le> t_date t \<and> t_date t \<le> hi)
                     (mset (transactions (db m)))
                \<and> sorted_wrt (\<lambda>a b. t_date b \<le> t_date a) rows
                \<and> r_period r = period \<and> r_start_date r = lo \<and> r_end_date r = hi
                \<and> (r_total_income r, r_total_expenses r, r_category_expenses r)
                    = report_loop (map to_dict rows) 0 0 []"
    using res ms so loop by (intro exI [of _ rows] exI [of _ ?r]) simp
  then show "let lo = pad4 (dt_year now) @ ''-''
                      @ (if period = ''monthly'' then pad2 (dt_month now) else ''01'') @ ''-01'';
               hi = pad4 (dt_year now) @ ''-'' @ pad2 (dt_month now) @ ''-'' @ pad2 (dt_day now)
           in \<exists>rows r. generate_report now m period = Inr r
                \<and> mset rows = filter_mset
                     (\<lambda>t. t_user_id t = user_of m \<and> lo \<le> t_date t \<and> t_date t \<le> hi)
                     (mset (transactions (db m)))
                \<and> sorted_wrt (\<lambda>a b. t_date b \<le> t_date a) rows
                \<and> r_period r = period \<and> r_start_date r = lo \<and> r_end_date r = hi
                \<and> (r_total_income r, r_total_expenses r, r_category_expenses r)
                    = report_loop (map to_dict rows) 0 0 []"
    unfolding Let_def lo [symmetric] hi [symmetric] .
qed


lemma strftime_nov4 [simp]:
  "strftime_date (nov 4) = ''2026-11-04''"
  "strftime_date ((nov 4)\<lparr>dt_day := 1\<rparr>) = ''2026-11-01''"
  "strftime_date ((nov 4)\<lparr>dt_month := 1, dt_day := 1\<rparr>) = ''2026-01-01''"
  "strftime_datetime (nov 4) = ''2026-11-04 10:00:00''"
  "strftime_date ((nov 4)\<lparr>dt_day := Suc 0\<rparr>) = ''2026-11-01''"
  "strftime_date ((nov 4)\<lparr>dt_month := Suc 0, dt_day := Suc 0\<rparr>) = ''2026-01-01''"
  by (simp_all add: strftime_datetime_def strftime_date_def nov_def pad4_def pad2_def digit_def)

lemma float_sums:
  "(0::pyfloat) + Finite 60 = Finite 60" "(0::pyfloat) + Finite 50 = Finite 50"
  "Finite 50 + Finite 60 = Finite 110" "Finite 60 + Finite 50 = Finite 110"
  "(0::pyfloat) + Finite 1500 = Finite 1500"
  "(0::pyfloat) - Finite 60 = Finite (- 60)" "Finite 1500 - Finite 60 = Finite 1440"
  by (simp_all add: zero_pyfloat_def minus_pyfloat_def round64_Ints)

lemma nov_strings:
  "strftime_datetime (nov 2) = ''2026-11-02 10:00:00''"
  "strftime_datetime (nov 3) = ''2026-11-03 10:00:00''"
  "dt_month (nov d) = 11" "dt_year (nov d) = 2026"
  by (simp_all add: strftime_datetime_def strftime_date_def nov_def pad4_def pad2_def digit_def)

text \<open>
  Claim C2. The report of a period covers the user's transactions whose timestamp lies
  between the first day of the current month (\<open>monthly\<close>) or year (\<open>yearly\<close>) and
  today, both included, and any other period is refused. The code refuses other
  periods and starts at the first day, but its upper bound is the bare date of today,
  and every timestamp of today is above it. On 4 November alice adds a lunch of 50 to
  \<open>alice_november\<close>, which gives \<open>alice_ledger\<close>: the monthly report of that day is the
  same before and after, with expenses of 60 for a month in which alice has spent 110,
  and the yearly report leaves the lunch out as well.
\<close>

theorem generate_report_misses_today:
  "add_transaction (nov 4) (nov 4) alice_november ''expense'' (Finite 50) ''food'' ''lunch''
     = (Inr None, alice_ledger)
   \<and> generate_report (nov 4) alice_november ''monthly'' =
       Inr \<lparr>r_period = ''monthly'', r_start_date = ''2026-11-01'', r_end_date = ''2026-11-04'',
            r_total_income = 0, r_total_expenses = Finite 60, r_savings = Finite (- 60),
            r_category_expenses = [(''food'', Finite 60)]\<rparr>
   \<and> generate_report (nov 4) alice_ledger ''monthly'' =
       Inr \<lparr>r_period = ''monthly'', r_start_date = ''2026-11-01'', r_end_date = ''2026-11-04'',
            r_total_income = 0, r_total_expenses = Finite 60, r_savings = Finite (- 60),
            r_category_expenses = [(''food'', Finite 60)]\<rparr>
   \<and> generate_report (nov 4) alice_ledger ''yearly'' =
       Inr \<lparr>r_period = ''yearly'', r_start_date = ''2026-01-01'', r_end_date = ''2026-11-04'',
            r_total_income = Finite 1500, r_total_expenses = Finite 60,
            r_savings = Finite 1440, r_category_expenses = [(''food'', Finite 60)]\<rparr>
   \<and> generate_report (nov 4) alice_ledger ''weekly'' = Inl InvalidPeriod"
proof -
  have li: "logged_in alice_ledger" "user_of alice_ledger = 1"
    "logged_in alice_november" "user_of alice_november = 1"
    by (simp_all add: alice_ledger_def alice_november_def logged_in_def user_of_def)
  let ?d1 = "\<lparr>d_id = 1, d_type = ''income'', d_amount = Finite 1500, d_category = ''salary'',
              d_description = ''october'', d_date = ''2026-10-30 09:00:00''\<rparr>"
  let ?d2 = "\<lparr>d_id = 2, d_type = ''expense'', d_amount = Finite 60, d_category = ''food'',
              d_description = ''groceries'', d_date = ''2026-11-02 10:00:00''\<rparr>"
  have cb: "check_budget (nov 4) alice_ledger ''food'' (Finite 50) = (False, None)"
    using li by (simp add: check_budget_def alice_ledger_def)
  have 1: "add_transaction (nov 4) (nov 4) alice_november ''expense'' (Finite 50) ''food'' ''lunch''
     = (Inr None, alice_ledger)"
  proof -
    have "insert_transaction 1 ''expense'' (Finite 50) ''food'' ''lunch'' ''2026-11-04 10:00:00''
            (db alice_november) = Some (db alice_ledger)"
      by (simp add: insert_transaction_def alice_november_def alice_ledger_def next_rowid_def)
    moreover have "alice_november\<lparr>db := db alice_ledger\<rparr> = alice_ledger"
      by (simp add: alice_november_def alice_ledger_def)
    ultimately show ?thesis
      using li cb by (simp add: add_transaction_def Let_def)
  qed
  have gm0: "get_transactions alice_november (Some ''2026-11-01'') (Some ''2026-11-04'') None None
           = [?d2]"
    using li
    by (simp add: get_transactions_def alice_november_def selected_def order_by_date_desc_def
        to_dict_def)
  have gm: "get_transactions alice_ledger (Some ''2026-11-01'') (Some ''2026-11-04'') None None
           = [?d2]"
    using li
    by (simp add: get_transactions_def alice_ledger_def selected_def order_by_date_desc_def
        to_dict_def)
  have gy: "get_transactions alice_ledger (Some ''2026-01-01'') (Some ''2026-11-04'') None None
           = [?d2, ?d1]"
    using li
    by (simp add: get_transactions_def alice_ledger_def selected_def order_by_date_desc_def
        to_dict_def)
  have 2: "generate_report (nov 4) alice_november ''monthly'' =
       Inr \<lparr>r_period = ''monthly'', r_start_date = ''2026-11-01'', r_end_date = ''2026-11-04'',
            r_total_income = 0, r_total_expenses = Finite 60, r_savings = Finite (- 60),
            r_category_expenses = [(''food'', Finite 60)]\<rparr>"
    using li by (simp add: generate_report_def Let_def gm0 float_sums del: plus_pyfloat.simps)
  have 3: "generate_report (nov 4) alice_ledger ''monthly'' =
       Inr \<lparr>r_period = ''monthly'', r_start_date = ''2026-11-01'', r_end_date = ''2026-11-04'',
            r_total_income = 0, r_total_expenses = Finite 60, r_savings = Finite (- 60),
            r_category_expenses = [(''food'', Finite 60)]\<rparr>"
    using li by (simp add: generate_report_def Let_def gm float_sums del: plus_pyfloat.simps)
  have 4: "generate_report (nov 4) alice_ledger ''yearly'' =
       Inr \<lparr>r_period = ''yearly'', r_start_date = ''2026-01-01'', r_end_date = ''2026-11-04'',
            r_total_income = Finite 1500, r_total_expenses = Finite 60,
            r_savings = Finite 1440, r_category_expenses = [(''food'', Finite 60)]\<rparr>"
    using li by (simp add: generate_report_def Let_def gy float_sums del: plus_pyfloat.simps)
  have 5: "generate_report (nov 4) alice_ledger ''weekly'' = Inl InvalidPeriod"
    using li by (simp add: generate_report_def)
  show ?thesis using 1 2 3 4 5 by simp
qed


section \<open>The sums of a report\<close>













section \<open>The budget check on the day of an expense\<close>

lemma food_budget_eq:
  "food_budget (nov d) =
     \<lparr>db = \<lparr>users = [\<lparr>u_id = 1, u_username = ''alice'', u_password = ''terces''\<rparr>],
             transactions = [],
             budgets = [\<lparr>b_id = 1, b_user_id = 1, b_category = ''food'', b_amount = Finite 100,
                         b_month = 11, b_year = 2026\<rparr>],
             seq_users = 1, seq_transactions = 0, seq_budgets = 1\<rparr>,
      current_user = Some 1\<rparr>"
  by (simp add: food_budget_def alice_session_eq set_budget_def logged_in_def user_of_def
      insert_or_replace_budget_def next_rowid_def nov_strings Let_def)

lemma food_sixty_eq:
  "food_sixty (nov d) =
     \<lparr>db = \<lparr>users = [\<lparr>u_id = 1, u_username = ''alice'', u_password = ''terces''\<rparr>],
             transactions =
               [\<lparr>t_id = 1, t_user_id = 1, t_type = ''expense'', t_amount = Finite 60,
                 t_category = ''food'', t_description = ''groceries'',
                 t_date = strftime_datetime (nov d)\<rparr>],
             budgets = [\<lparr>b_id = 1, b_user_id = 1, b_category = ''food'', b_amount = Finite 100,
                         b_month = 11, b_year = 2026\<rparr>],
             seq_users = 1, seq_transactions = 1, seq_budgets = 1\<rparr>,
      current_user = Some 1\<rparr>"
  by (simp add: food_sixty_def food_budget_eq add_transaction_def logged_in_def user_of_def
      insert_transaction_def next_rowid_def Let_def)

lemma food_fifty_eq:
  "food_fifty (nov d) (nov e) =
     \<lparr>db = \<lparr>users = [\<lparr>u_id = 1, u_username = ''alice'', u_password = ''terces''\<rparr>],
             transactions =
               [\<lparr>t_id = 1, t_user_id = 1, t_type = ''expense'', t_amount = Finite 60,
                 t_category = ''food'', t_description = ''groceries'',
                 t_date = strftime_datetime (nov d)\<rparr>,
                \<lparr>t_id = 2, t_user_id = 1, t_type = ''expense'', t_amount = Finite 50,
                 t_category = ''food'', t_description = ''lunch'',
                 t_date = strftime_datetime (nov e)\<rparr>],
             budgets = [\<lparr>b_id = 1, b_user_id = 1, b_category = ''food'', b_amount = Finite 100,
                         b_month = 11, b_year = 2026\<rparr>],
             seq_users = 1, seq_transactions = 2, seq_budgets = 1\<rparr>,
      current_user = Some 1\<rparr>"
  by (simp add: food_fifty_def food_sixty_eq add_transaction_def logged_in_def user_of_def
      insert_transaction_def next_rowid_def Let_def)

text \<open>
  Claim C1. With a budget for the category in the current month, \<open>check_budget\<close> reports
  an excess, with the budget and the amount spent, exactly when the user's expenses of
  that category in the month so far add up to more than the budget. The code takes the
  month so far to end at the bare date of today, below every timestamp of today. Alice
  sets a budget of 100 for food on 4 November and adds expenses of 60 and 50 the same
  day: both rows and the budget are stored, yet neither the check that
  \<open>add_transaction\<close> makes nor a check made afterwards reports anything. Had she spent
  the same amounts on 2 and 3 November, the check of 4 November would report 110 spent
  against a budget of 100.
\<close>

theorem check_budget_misses_today:
  "map t_amount (transactions (db (food_fifty (nov 4) (nov 4)))) = [Finite 60, Finite 50]
   \<and> map t_date (transactions (db (food_fifty (nov 4) (nov 4))))
       = [''2026-11-04 10:00:00'', ''2026-11-04 10:00:00'']
   \<and> map (\<lambda>b. (b_category b, b_amount b, b_month b, b_year b))
         (budgets (db (food_fifty (nov 4) (nov 4)))) = [(''food'', Finite 100, 11, 2026)]
   \<and> fst (add_transaction (nov 4) (nov 4) (food_sixty (nov 4))
            ''expense'' (Finite 50) ''food'' ''lunch'') = Inr None
   \<and> check_budget (nov 4) (food_fifty (nov 4) (nov 4)) ''food'' (Finite 50) = (False, None)
   \<and> check_budget (nov 4) (food_fifty (nov 2) (nov 3)) ''food'' (Finite 50)
       = (True, Some (Finite 100, Finite 110))"
proof -
  have 1: "map t_amount (transactions (db (food_fifty (nov 4) (nov 4)))) = [Finite 60, Finite 50]"
    by (simp add: food_fifty_eq)
  have 2: "map t_date (transactions (db (food_fifty (nov 4) (nov 4))))
       = [''2026-11-04 10:00:00'', ''2026-11-04 10:00:00'']"
    by (simp add: food_fifty_eq)
  have 3: "map (\<lambda>b. (b_category b, b_amount b, b_month b, b_year b))
         (budgets (db (food_fifty (nov 4) (nov 4)))) = [(''food'', Finite 100, 11, 2026)]"
    by (simp add: food_fifty_eq)
  have g: "get_transactions (food_fifty (nov 4) (nov 4)) (Some ''2026-11-01'')
             (Some ''2026-11-04'') (Some ''food'') (Some ''expense'') = []"
    by (simp add: food_fifty_eq get_transactions_def logged_in_def user_of_def selected_def
        order_by_date_desc_def)
  have 5: "check_budget (nov 4) (food_fifty (nov 4) (nov 4)) ''food'' (Finite 50) = (False, None)"
    unfolding check_budget_def Let_def strftime_nov4 g
    by (simp add: food_fifty_eq logged_in_def user_of_def budget_key_def nov_strings py_sum_def
        zero_pyfloat_def)
  have 4: "fst (add_transaction (nov 4) (nov 4) (food_sixty (nov 4))
            ''expense'' (Finite 50) ''food'' ''lunch'') = Inr None"
    using 5
    by (simp add: food_fifty_def add_transaction_def food_sixty_eq logged_in_def user_of_def
        insert_transaction_def Let_def)
  have g2: "get_transactions (food_fifty (nov 2) (nov 3)) (Some ''2026-11-01'')
             (Some ''2026-11-04'') (Some ''food'') (Some ''expense'')
            = [\<lparr>d_id = 2, d_type = ''expense'', d_amount = Finite 50, d_category = ''food'',
                d_description = ''lunch'', d_date = ''2026-11-03 10:00:00''\<rparr>,
               \<lparr>d_id = 1, d_type = ''expense'', d_amount = Finite 60, d_category = ''food'',
                d_description = ''groceries'', d_date = ''2026-11-02 10:00:00''\<rparr>]"
    by (simp add: food_fifty_eq get_transactions_def logged_in_def user_of_def selected_def
        order_by_date_desc_def nov_strings to_dict_def)
  have s: "py_sum [Finite 50, Finite 60] = Finite 110"
    by (simp add: py_sum_def float_sums del: plus_pyfloat.simps)
  have 6: "check_budget (nov 4) (food_fifty (nov 2) (nov 3)) ''food'' (Finite 50)
       = (True, Some (Finite 100, Finite 110))"
    unfolding check_budget_def Let_def strftime_nov4 g2
    by (simp add: food_fifty_eq logged_in_def user_of_def budget_key_def nov_strings s
        del: plus_pyfloat.simps)
  show ?thesis using 1 2 3 4 5 6 by simp
qed


end
